theory Spec2Isabelle
  imports Complex_Main "HOL-Library.Log_Nat" "HOL-Library.List_Lexorder" "HOL-Library.Char_ord"
begin

section \<open>JavaScript values used by the components\<close>

text \<open>
  Money, prices and durations are JavaScript numbers in the source: IEEE 754 doubles.  A finite
  number is modelled by the rational it denotes, and the three non-finite values that the source
  can produce (a division by zero, an overflow, a failed parse) are explicit constructors.  The
  zero of the model is \<open>+0\<close>; no value of the source is \<open>-0\<close>.  Timestamps are integer
  milliseconds, as \<^verbatim>\<open>Date.now()\<close> and \<^verbatim>\<open>getTime()\<close> return them.
\<close>

datatype jsnum = Num rat | NaN | PosInfinity | NegInfinity

subsection \<open>Rounding to a double\<close>

text \<open>
  The result of an arithmetic operation is the double nearest to the exact result, a tie going
  to the double whose last bit is even.  \<open>binade x\<close> is the exponent \<open>e\<close> with
  \<open>2\<^sup>e \<le> x < 2\<^sup>e\<^sup>+\<^sup>1\<close>; doubles of that exponent are the multiples of \<open>2\<^sup>e\<^sup>-\<^sup>5\<^sup>2\<close>, and below
  \<open>2\<^sup>-\<^sup>1\<^sup>0\<^sup>2\<^sup>2\<close> (the subnormal range) the multiples of \<open>2\<^sup>-\<^sup>1\<^sup>0\<^sup>7\<^sup>4\<close>.
\<close>

definition pow2 :: "int \<Rightarrow> rat" where
  "pow2 k = (if 0 \<le> k then 2 ^ nat k else 1 / 2 ^ nat (- k))"

definition round_half_even :: "rat \<Rightarrow> int" where
  "round_half_even x =
     (let f = \<lfloor>x\<rfloor>; r = x - of_int f
      in if r < 1 / 2 then f else if 1 / 2 < r then f + 1 else if even f then f else f + 1)"

definition binade :: "rat \<Rightarrow> int" where
  "binade x =
     (let a = fst (quotient_of x); b = snd (quotient_of x);
          k = bitlen a - bitlen b
      in if pow2 k \<le> x then k else k - 1)"

definition round_double :: "rat \<Rightarrow> rat" where
  "round_double x =
     (if x = 0 then 0
      else (let a = \<bar>x\<bar>;
                e = max (binade a) (- 1022);
                ulp = pow2 (e - 52);
                m = round_half_even (a / ulp)
            in sgn x * of_int m * ulp))"

text \<open>
  The number that stands for an exact value: its nearest double, or an infinity when that
  rounding leaves the range of the doubles, which end below \<open>2\<^sup>1\<^sup>0\<^sup>2\<^sup>4\<close>.
\<close>

definition js_number :: "rat \<Rightarrow> jsnum" where
  "js_number x =
     (let r = round_double x
      in if 1024 \<le> binade \<bar>r\<bar> then (if 0 < r then PosInfinity else NegInfinity)
         else Num r)"

text \<open>\<^verbatim>\<open>a / b\<close> on two numbers.\<close>

fun js_divide :: "jsnum \<Rightarrow> jsnum \<Rightarrow> jsnum" where
  "js_divide (Num a) (Num b) =
     (if b = 0 then (if a = 0 then NaN else if 0 < a then PosInfinity else NegInfinity)
      else js_number (a / b))"
| "js_divide (Num a) PosInfinity = Num 0"
| "js_divide (Num a) NegInfinity = Num 0"
| "js_divide PosInfinity (Num b) = (if 0 \<le> b then PosInfinity else NegInfinity)"
| "js_divide NegInfinity (Num b) = (if 0 \<le> b then NegInfinity else PosInfinity)"
| "js_divide x y = NaN"

text \<open>
  \<^verbatim>\<open>a / b\<close> on the numbers that stand for two exact values: the operands are doubles before
  they are divided, and the quotient is rounded once more.
\<close>

definition js_div :: "rat \<Rightarrow> rat \<Rightarrow> jsnum" where
  "js_div a b = js_divide (js_number a) (js_number b)"

text \<open>\<^verbatim>\<open>Math.floor\<close>.\<close>

fun js_floor :: "jsnum \<Rightarrow> jsnum" where
  "js_floor (Num r) = Num (of_int \<lfloor>r\<rfloor>)"
| "js_floor NaN = NaN"
| "js_floor PosInfinity = PosInfinity"
| "js_floor NegInfinity = NegInfinity"

subsection \<open>parseInt\<close>

text \<open>
  \<^verbatim>\<open>parseInt(string)\<close> with no radix: leading white space is skipped, one sign is read, a
  \<^verbatim>\<open>0x\<close> prefix selects radix 16, and the longest prefix of digits is the value.  No digit at
  all gives NaN, here \<open>None\<close>.  The texts it reads here are values of number fields, which
  hold ASCII only, so the white space it skips is the ASCII one.  The value is the exact
  integer of the digits: it is the number the source computes up to \<open>2\<^sup>5\<^sup>3\<close>, beyond which the
  source rounds it to a double.
\<close>

definition isWhiteSpace :: "char \<Rightarrow> bool" where
  "isWhiteSpace c =
     (c = CHR '' '' \<or> c = CHR 0x09 \<or> c = CHR 0x0A \<or> c = CHR 0x0B \<or> c = CHR 0x0C \<or> c = CHR 0x0D)"

definition digitValue :: "char \<Rightarrow> nat option" where
  "digitValue c =
     (let n = (of_char c :: nat) in
      if 48 \<le> n \<and> n \<le> 57 then Some (n - 48)
      else if 97 \<le> n \<and> n \<le> 122 then Some (n - 87)
      else if 65 \<le> n \<and> n \<le> 90 then Some (n - 55)
      else None)"

definition isRadixDigit :: "nat \<Rightarrow> char \<Rightarrow> bool" where
  "isRadixDigit R c = (case digitValue c of None \<Rightarrow> False | Some d \<Rightarrow> d < R)"

definition digitsValue :: "nat \<Rightarrow> string \<Rightarrow> nat" where
  "digitsValue R Z = foldl (\<lambda>acc c. acc * R + (case digitValue c of None \<Rightarrow> 0 | Some d \<Rightarrow> d)) 0 Z"

definition parseInt :: "string \<Rightarrow> int option" where
  "parseInt inputString =
     (let S = dropWhile isWhiteSpace inputString;
          sign = (if take 1 S = ''-'' then - 1 else 1 :: int);
          S1 = (if take 1 S = ''-'' \<or> take 1 S = ''+'' then drop 1 S else S);
          hex = (take 2 S1 = ''0x'' \<or> take 2 S1 = ''0X'');
          R = (if hex then 16 else 10);
          S2 = (if hex then drop 2 S1 else S1);
          Z = takeWhile (isRadixDigit R) S2
      in if Z = [] then None else Some (sign * int (digitsValue R Z)))"

text \<open>\<^verbatim>\<open>parseInt(q) <= 0\<close>: a comparison with NaN is false.\<close>

definition parsed_le_zero :: "int option \<Rightarrow> bool" where
  "parsed_le_zero v = (case v of None \<Rightarrow> False | Some n \<Rightarrow> n \<le> 0)"

text \<open>
  \<^verbatim>\<open>String.prototype.trim\<close>.  A string of the model is the UTF-8 encoding of the text, so a
  character beyond ASCII is a sequence of two or three bytes.  \<open>whiteSpaceCodes\<close> are the
  characters \<^verbatim>\<open>trim\<close> strips, the WhiteSpace and LineTerminator of the language: TAB, LF, VT,
  FF, CR, SP, U+00A0, U+1680, U+2000 to U+200A, U+2028, U+2029, U+202F, U+205F, U+3000 and
  U+FEFF.
\<close>

definition whiteSpaceCodes :: "string list" where
  "whiteSpaceCodes =
     [[CHR 0x09], [CHR 0x0A], [CHR 0x0B], [CHR 0x0C], [CHR 0x0D], [CHR 0x20],
      [CHR 0xC2, CHR 0xA0],
      [CHR 0xE1, CHR 0x9A, CHR 0x80]] @
     map (\<lambda>b. [CHR 0xE2, CHR 0x80, b])
       [CHR 0x80, CHR 0x81, CHR 0x82, CHR 0x83, CHR 0x84, CHR 0x85, CHR 0x86, CHR 0x87,
        CHR 0x88, CHR 0x89, CHR 0x8A, CHR 0xA8, CHR 0xA9, CHR 0xAF] @
     [[CHR 0xE2, CHR 0x81, CHR 0x9F],
      [CHR 0xE3, CHR 0x80, CHR 0x80],
      [CHR 0xEF, CHR 0xBB, CHR 0xBF]]"

text \<open>The string without the longest prefix made of the given codes.\<close>

function dropLeading :: "string list \<Rightarrow> string \<Rightarrow> string" where
  "dropLeading codes s =
     (case List.find (\<lambda>w. w \<noteq> [] \<and> take (length w) s = w) codes of
        None \<Rightarrow> s
      | Some w \<Rightarrow> dropLeading codes (drop (length w) s))"
  by pat_completeness auto
termination
proof (relation "measure (\<lambda>p. length (snd p))")
  show "wf (measure (\<lambda>p. length (snd p)))" by simp
next
  fix codes :: "string list" and s w :: string
  assume "List.find (\<lambda>w. w \<noteq> [] \<and> take (length w) s = w) codes = Some w"
  then have w: "w \<noteq> []" and t: "take (length w) s = w"
    by (auto simp add: find_Some_iff)
  from w t have "s \<noteq> []" by auto
  with w have "length (drop (length w) s) < length s" by simp
  then show "((codes, drop (length w) s), (codes, s)) \<in> measure (\<lambda>p. length (snd p))"
    by simp
qed

definition trim :: "string \<Rightarrow> string" where
  "trim s =
     rev (dropLeading (map rev whiteSpaceCodes) (rev (dropLeading whiteSpaceCodes s)))"

text \<open>\<^verbatim>\<open>Number.prototype.toString\<close> for the values \<^verbatim>\<open>calculateMaxQuantity\<close> returns.\<close>

fun digits_of :: "nat \<Rightarrow> nat \<Rightarrow> string" where
  "digits_of 0 n = ''''"
| "digits_of (Suc fuel) n =
     (if n < 10 then [char_of (48 + n)]
      else digits_of fuel (n div 10) @ [char_of (48 + n mod 10)])"

definition int_toString :: "int \<Rightarrow> string" where
  "int_toString i =
     (if i < 0 then ''-'' @ digits_of (Suc (nat (- i))) (nat (- i))
      else digits_of (Suc (nat i)) (nat i))"

fun js_toString :: "jsnum \<Rightarrow> string" where
  "js_toString (Num r) = int_toString \<lfloor>r\<rfloor>"
| "js_toString NaN = ''NaN''"
| "js_toString PosInfinity = ''Infinity''"
| "js_toString NegInfinity = ''-Infinity''"

section \<open>Rows of the stored game\<close>

text \<open>
  \<^verbatim>\<open>actual_start_time\<close> of a round is a timestamp string or null.  \<open>NoStart\<close> is the null
  (falsy) value, \<open>BadStart\<close> a string that \<^verbatim>\<open>new Date\<close> cannot read (its \<^verbatim>\<open>getTime()\<close> is
  NaN), and \<open>StartAt ms\<close> a readable one with its epoch milliseconds.
\<close>

datatype start_time = NoStart | BadStart | StartAt int

record game =
  game_id :: nat
  game_title :: string
  game_description :: string
  game_status :: string
  initial_cash :: rat
  total_rounds :: int
  allow_short :: bool
  current_round_number :: int
  created_by :: "nat option"

record game_round =
  round_number :: int
  round_status :: string
  duration_minutes :: "rat option"
  actual_start_time :: start_time

section \<open>RoundManager: the countdown and the scheduled advance\<close>

text \<open>
  The component keeps two references across renders, \<^verbatim>\<open>countdownIntervalRef\<close> and
  \<^verbatim>\<open>autoAdvanceTimeoutRef\<close>.  The browser's queue of pending timeouts is part of the state
  (\<open>timeouts\<close>: identifier and due time), so that what is scheduled and what the reference
  says are two things.  A running countdown interval is recorded with the round its callback
  closes over.  \<open>advance_calls\<close> lists the times at which \<^verbatim>\<open>gameApi.advanceToNextRound\<close> was
  invoked by a timeout.
\<close>

record timer_state =
  timeRemaining :: int
  autoAdvancing :: bool
  countdownIntervalRef :: "game_round option"
  autoAdvanceTimeoutRef :: "nat option"
  timeouts :: "(nat \<times> int) list"
  next_timer_id :: nat
  advance_calls :: "int list"

definition initial_timer_state :: timer_state where
  "initial_timer_state =
     \<lparr>timeRemaining = 0, autoAdvancing = False, countdownIntervalRef = None,
      autoAdvanceTimeoutRef = None, timeouts = [], next_timer_id = 1, advance_calls = []\<rparr>"

definition clearCountdown :: "timer_state \<Rightarrow> timer_state" where
  "clearCountdown st = st\<lparr>countdownIntervalRef := None\<rparr>"

definition clearAutoAdvanceTimeout :: "timer_state \<Rightarrow> timer_state" where
  "clearAutoAdvanceTimeout st =
     (case autoAdvanceTimeoutRef st of
        None \<Rightarrow> st
      | Some i \<Rightarrow> st\<lparr>timeouts := filter (\<lambda>t. fst t \<noteq> i) (timeouts st),
                       autoAdvanceTimeoutRef := None\<rparr>)"

text \<open>
  \<^verbatim>\<open>calculateTimeRemaining\<close>, in whole seconds.  Its result is always a finite number, so the
  \<^verbatim>\<open>Number.isFinite\<close> tests on it in the effect and in the interval callback always pass.
\<close>

definition calculateTimeRemaining :: "game_round \<Rightarrow> int \<Rightarrow> int" where
  "calculateTimeRemaining currentRound now =
     (case actual_start_time currentRound of
        NoStart \<Rightarrow> 0
      | BadStart \<Rightarrow> 0
      | StartAt startTime \<Rightarrow>
          (let durationMs =
                 (case duration_minutes currentRound of None \<Rightarrow> 0 | Some m \<Rightarrow> m) * 60 * 1000
           in if durationMs \<le> 0 then 0
              else (let endTime = of_int startTime + durationMs;
                        remaining = max 0 (endTime - of_int now)
                    in \<lfloor>remaining / 1000\<rfloor>)))"

definition triggerAutoAdvance :: "bool \<Rightarrow> int \<Rightarrow> timer_state \<Rightarrow> timer_state" where
  "triggerAutoAdvance isAdmin now st =
     (if \<not> isAdmin then st
      else if autoAdvanceTimeoutRef st \<noteq> None then st
      else st\<lparr>autoAdvancing := True,
               autoAdvanceTimeoutRef := Some (next_timer_id st),
               timeouts := timeouts st @ [(next_timer_id st, now + 3000)],
               next_timer_id := Suc (next_timer_id st)\<rparr>)"

text \<open>The round the effect works on: the one whose number is the game's current round.\<close>

definition find_current_round :: "game \<Rightarrow> game_round list \<Rightarrow> game_round option" where
  "find_current_round g rounds = List.find (\<lambda>r. round_number r = current_round_number g) rounds"

definition timer_idle :: "timer_state \<Rightarrow> timer_state" where
  "timer_idle st = clearAutoAdvanceTimeout (st\<lparr>autoAdvancing := False, timeRemaining := 0\<rparr>)"

text \<open>The body of the timer effect.\<close>

definition timer_effect ::
  "bool \<Rightarrow> game option \<Rightarrow> game_round list \<Rightarrow> int \<Rightarrow> timer_state \<Rightarrow> timer_state" where
  "timer_effect isAdmin g rounds now st0 =
     (let st = clearCountdown st0 in
      case g of
        None \<Rightarrow> timer_idle st
      | Some gm \<Rightarrow>
          if game_status gm \<noteq> ''live'' then timer_idle st
          else (case find_current_round gm rounds of
                  None \<Rightarrow> timer_idle st
                | Some currentRound \<Rightarrow>
                    if round_status currentRound \<noteq> ''active'' then timer_idle st
                    else (let initialRemaining = calculateTimeRemaining currentRound now;
                              st1 = (if 0 < initialRemaining then st\<lparr>autoAdvancing := False\<rparr> else st);
                              st2 = st1\<lparr>timeRemaining := initialRemaining\<rparr>;
                              st3 = (if initialRemaining \<le> 0 then triggerAutoAdvance isAdmin now st2
                                     else st2)
                          in st3\<lparr>countdownIntervalRef := Some currentRound\<rparr>)))"

text \<open>The function the effect returns; React runs it before the effect runs again.\<close>

definition effect_cleanup :: "timer_state \<Rightarrow> timer_state" where
  "effect_cleanup st = clearAutoAdvanceTimeout (clearCountdown st)"

text \<open>One firing of the countdown interval, every 1000 ms while it is set.\<close>

definition countdown_tick :: "bool \<Rightarrow> int \<Rightarrow> timer_state \<Rightarrow> timer_state" where
  "countdown_tick isAdmin now st =
     (case countdownIntervalRef st of
        None \<Rightarrow> st
      | Some currentRound \<Rightarrow>
          (let remaining = calculateTimeRemaining currentRound now;
               st1 = st\<lparr>timeRemaining := remaining\<rparr>
           in if remaining \<le> 0 then triggerAutoAdvance isAdmin now (clearCountdown st1)
              else st1))"

text \<open>
  The timeout's callback is an \<^verbatim>\<open>async\<close> function.  When the timeout fires, the callback
  invokes \<^verbatim>\<open>advanceToNextRound\<close> and suspends at the \<^verbatim>\<open>await\<close>; the \<^verbatim>\<open>catch\<close> and
  \<^verbatim>\<open>finally\<close> blocks run when the call has settled, which is a later turn of the event loop.
\<close>

definition timeout_fires :: "nat \<Rightarrow> int \<Rightarrow> timer_state \<Rightarrow> timer_state" where
  "timeout_fires i now st =
     (case List.find (\<lambda>t. fst t = i) (timeouts st) of
        None \<Rightarrow> st
      | Some t \<Rightarrow>
          if now < snd t then st
          else st\<lparr>timeouts := filter (\<lambda>t. fst t \<noteq> i) (timeouts st),
                   advance_calls := advance_calls st @ [now]\<rparr>)"

definition call_settles :: "bool \<Rightarrow> timer_state \<Rightarrow> timer_state" where
  "call_settles ok st =
     (let st1 = (if ok then st else st\<lparr>autoAdvancing := False\<rparr>)
      in st1\<lparr>autoAdvanceTimeoutRef := None\<rparr>)"

text \<open>
  What can happen to a mounted component: the effect runs because \<^verbatim>\<open>game\<close> or
  \<^verbatim>\<open>rounds\<close> was set (the cleanup of the previous run first, then the body), the interval
  ticks, a timeout fires, a call settles.  The effect returns no cleanup function on its first
  run and after a run that returned early; in both cases the two references are empty, and
  the cleanup changes nothing there.
\<close>

datatype timer_event =
    EffectRuns "game option" "game_round list" int
  | IntervalTicks int
  | TimeoutFires nat int
  | CallSettles bool

fun timer_step :: "bool \<Rightarrow> timer_state \<Rightarrow> timer_event \<Rightarrow> timer_state" where
  "timer_step isAdmin st (EffectRuns g rounds now) =
     timer_effect isAdmin g rounds now (effect_cleanup st)"
| "timer_step isAdmin st (IntervalTicks now) = countdown_tick isAdmin now st"
| "timer_step isAdmin st (TimeoutFires i now) = timeout_fires i now st"
| "timer_step isAdmin st (CallSettles ok) = call_settles ok st"

definition timer_run :: "bool \<Rightarrow> timer_event list \<Rightarrow> timer_state" where
  "timer_run isAdmin evs = foldl (timer_step isAdmin) initial_timer_state evs"

text \<open>
  The same callback when nothing else happens between the call and its settling: the
  \<^verbatim>\<open>finally\<close> block follows the firing at once.  \<open>handler_step\<close> is \<open>timer_step\<close> with the
  timeout's callback run as this one step.
\<close>

datatype timer_handler =
    EffectHandler "game option" "game_round list" int
  | TickHandler int
  | TimeoutHandler nat int bool

fun handler_step :: "bool \<Rightarrow> timer_state \<Rightarrow> timer_handler \<Rightarrow> timer_state" where
  "handler_step isAdmin st (EffectHandler g rounds now) =
     timer_step isAdmin st (EffectRuns g rounds now)"
| "handler_step isAdmin st (TickHandler now) = timer_step isAdmin st (IntervalTicks now)"
| "handler_step isAdmin st (TimeoutHandler i now ok) =
     (let fired = timer_step isAdmin st (TimeoutFires i now)
      in if fired = st then st else timer_step isAdmin fired (CallSettles ok))"

text \<open>The reference accounts for every pending timeout.\<close>

definition pending_tracked :: "timer_state \<Rightarrow> bool" where
  "pending_tracked st =
     (case autoAdvanceTimeoutRef st of
        None \<Rightarrow> timeouts st = []
      | Some i \<Rightarrow> timeouts st = [] \<or> (map fst (timeouts st) = [i]))"

section \<open>The stored tables and the queries of the client API\<close>

text \<open>
  The tables the components read and write, as lists of rows.  A query returns the rows that
  match its \<^verbatim>\<open>eq\<close> filters, in stored order unless it asks for an order; a \<^verbatim>\<open>single()\<close> query
  that finds no row throws, which is \<open>None\<close> here.  An ordered query sorts by the column,
  rows with equal keys staying in stored order; symbols are compared byte by byte, which is
  the order of the database for symbols of capital letters and digits.  The tables carry no
  uniqueness constraint: an insert always adds its rows.  Network and permission failures of
  a call are not modelled.
\<close>

record game_stock =
  stock_game_id :: nat
  stock_symbol :: string
  display_name :: string
  stock_initial_price :: rat

record round_price =
  price_game_id :: nat
  price_round_number :: int
  price_symbol :: string
  price :: rat

record database =
  games :: "game list"
  game_stocks :: "game_stock list"
  game_rounds :: "(nat \<times> game_round) list"
  round_prices :: "round_price list"
  next_game_id :: nat

definition getGameById :: "database \<Rightarrow> nat \<Rightarrow> game option" where
  "getGameById db gameId = List.find (\<lambda>g. game_id g = gameId) (games db)"

text \<open>\<^verbatim>\<open>getStocks\<close>: the stocks of the game, \<^verbatim>\<open>.order('symbol', { ascending: true })\<close>.\<close>

definition getStocks :: "database \<Rightarrow> nat \<Rightarrow> game_stock list" where
  "getStocks db gameId =
     sort_key stock_symbol (filter (\<lambda>s. stock_game_id s = gameId) (game_stocks db))"

text \<open>\<^verbatim>\<open>getRounds\<close>: the rounds of the game, \<^verbatim>\<open>.order('round_number', { ascending: true })\<close>.\<close>

definition getRounds :: "database \<Rightarrow> nat \<Rightarrow> game_round list" where
  "getRounds db gameId =
     sort_key round_number (map snd (filter (\<lambda>gr. fst gr = gameId) (game_rounds db)))"

text \<open>\<^verbatim>\<open>getRoundPrices\<close>: the prices of one round of the game; the query gives no order.\<close>

definition getRoundPrices :: "database \<Rightarrow> nat \<Rightarrow> int \<Rightarrow> round_price list" where
  "getRoundPrices db gameId roundNumber =
     filter (\<lambda>p. price_game_id p = gameId \<and> price_round_number p = roundNumber) (round_prices db)"

section \<open>TradingInterface\<close>

text \<open>
  A stock as the interface holds it: the stored row and, when \<^verbatim>\<open>loadStocks\<close> merged the
  prices of a round into it, \<^verbatim>\<open>current_price\<close>.
\<close>

record ui_stock =
  ui_symbol :: string
  ui_initial_price :: rat
  current_price :: "rat option"

record position =
  position_symbol :: string
  position_quantity :: int
  average_price :: rat

record player_game_state =
  cash :: rat
  equity_value :: rat
  total_value :: rat

datatype side = Buy | Sell

text \<open>
  The component's state.  \<open>placeOrder_calls\<close> lists the invocations of
  \<^verbatim>\<open>gameApi.placeOrder\<close>: symbol, side and the quantity argument (\<open>None\<close> is NaN).
\<close>

record trading_state =
  stocks :: "ui_stock list"
  positions :: "position list"
  playerState :: "player_game_state option"
  currentRound :: "game_round option"
  selectedStock :: "ui_stock option"
  orderType :: side
  quantity :: string
  submitting :: bool
  placeOrder_calls :: "(string \<times> side \<times> int option) list"

definition initial_trading_state :: trading_state where
  "initial_trading_state =
     \<lparr>stocks = [], positions = [], playerState = None, currentRound = None,
      selectedStock = None, orderType = Buy, quantity = [], submitting = False,
      placeOrder_calls = []\<rparr>"

text \<open>\<^verbatim>\<open>priceData?.price || stock.initial_price\<close>.\<close>

definition merged_price :: "round_price list \<Rightarrow> game_stock \<Rightarrow> rat" where
  "merged_price prices stock =
     (case List.find (\<lambda>p. price_symbol p = stock_symbol stock) prices of
        None \<Rightarrow> stock_initial_price stock
      | Some priceData \<Rightarrow>
          if price priceData \<noteq> 0 then price priceData else stock_initial_price stock)"

definition loadStocks :: "database \<Rightarrow> nat \<Rightarrow> trading_state \<Rightarrow> trading_state" where
  "loadStocks db gameId st =
     (let data = getStocks db gameId in
      case getGameById db gameId of
        None \<Rightarrow> st
      | Some g \<Rightarrow>
          if current_round_number g \<noteq> 0
          then (let prices = getRoundPrices db gameId (current_round_number g)
                in st\<lparr>stocks :=
                     map (\<lambda>stock. \<lparr>ui_symbol = stock_symbol stock,
                                    ui_initial_price = stock_initial_price stock,
                                    current_price = Some (merged_price prices stock)\<rparr>) data\<rparr>)
          else st\<lparr>stocks :=
                 map (\<lambda>stock. \<lparr>ui_symbol = stock_symbol stock,
                                ui_initial_price = stock_initial_price stock,
                                current_price = None\<rparr>) data\<rparr>)"

definition loadCurrentRound :: "database \<Rightarrow> nat \<Rightarrow> trading_state \<Rightarrow> trading_state" where
  "loadCurrentRound db gameId st =
     (case getGameById db gameId of
        None \<Rightarrow> st
      | Some g \<Rightarrow>
          if current_round_number g \<noteq> 0
          then st\<lparr>currentRound :=
                 List.find (\<lambda>r. round_number r = current_round_number g) (getRounds db gameId)\<rparr>
          else st)"

definition canTrade :: "trading_state \<Rightarrow> bool" where
  "canTrade st = (case currentRound st of None \<Rightarrow> False | Some r \<Rightarrow> round_status r = ''active'')"

definition getPosition :: "trading_state \<Rightarrow> string \<Rightarrow> position option" where
  "getPosition st symbol = List.find (\<lambda>p. position_symbol p = symbol) (positions st)"

definition calculateMaxQuantity :: "trading_state \<Rightarrow> ui_stock option \<Rightarrow> jsnum" where
  "calculateMaxQuantity st stock_opt =
     (case stock_opt of
        None \<Rightarrow> Num 0
      | Some stock \<Rightarrow>
          (case playerState st of
             None \<Rightarrow> Num 0
           | Some ps \<Rightarrow>
               if orderType st = Buy
               then js_floor (case current_price stock of
                                None \<Rightarrow> NaN
                              | Some p \<Rightarrow> js_div (cash ps) p)
               else (case getPosition st (ui_symbol stock) of
                       None \<Rightarrow> Num 0
                     | Some pos \<Rightarrow> Num (of_int (position_quantity pos)))))"

text \<open>The \<^verbatim>\<open>max\<close> attribute of the quantity field and the label of the Max button.\<close>

definition quantity_input_max :: "trading_state \<Rightarrow> jsnum" where
  "quantity_input_max st = calculateMaxQuantity st (selectedStock st)"

text \<open>
  \<^verbatim>\<open>handlePlaceOrder\<close> up to the call of \<^verbatim>\<open>placeOrder\<close>; \<open>order_settles\<close> is what runs when
  the call has returned.
\<close>

definition handlePlaceOrder :: "trading_state \<Rightarrow> trading_state" where
  "handlePlaceOrder st =
     (case selectedStock st of
        None \<Rightarrow> st
      | Some stock \<Rightarrow>
          if quantity st = [] then st
          else if parsed_le_zero (parseInt (quantity st)) then st
          else st\<lparr>submitting := True,
                   placeOrder_calls :=
                     placeOrder_calls st @ [(ui_symbol stock, orderType st, parseInt (quantity st))]\<rparr>)"

definition order_settles :: "bool \<Rightarrow> trading_state \<Rightarrow> trading_state" where
  "order_settles ok st =
     (let st1 = (if ok then st\<lparr>quantity := [], selectedStock := None\<rparr> else st)
      in st1\<lparr>submitting := False\<rparr>)"

text \<open>The \<^verbatim>\<open>disabled\<close> attributes.  All controls but the submit button use \<open>controls_disabled\<close>.\<close>

definition controls_disabled :: "trading_state \<Rightarrow> bool" where
  "controls_disabled st = (if canTrade st then False else True)"

definition submit_disabled :: "trading_state \<Rightarrow> bool" where
  "submit_disabled st =
     (if canTrade st
      then (submitting st \<or> quantity st = [] \<or> parsed_le_zero (parseInt (quantity st)))
      else True)"

text \<open>The per-share price of the order summary.\<close>

definition order_summary_price :: "trading_state \<Rightarrow> rat option" where
  "order_summary_price st =
     (case selectedStock st of None \<Rightarrow> None | Some stock \<Rightarrow> current_price stock)"

text \<open>
  What the player can do.  A disabled control fires no handler; the quantity field, the Max
  button and the submit button are rendered only while a stock is selected.
\<close>

datatype ui_event =
    ClickBuy | ClickSell | ChooseStock string | ClickMax | TypeQuantity string | ClickSubmit

fun ui_step :: "trading_state \<Rightarrow> ui_event \<Rightarrow> trading_state" where
  "ui_step st ClickBuy = (if controls_disabled st then st else st\<lparr>orderType := Buy\<rparr>)"
| "ui_step st ClickSell = (if controls_disabled st then st else st\<lparr>orderType := Sell\<rparr>)"
| "ui_step st (ChooseStock symbol) =
     (if controls_disabled st then st
      else st\<lparr>selectedStock := List.find (\<lambda>s. ui_symbol s = symbol) (stocks st),
               quantity := []\<rparr>)"
| "ui_step st ClickMax =
     (if selectedStock st = None then st
      else if controls_disabled st then st
      else st\<lparr>quantity := js_toString (quantity_input_max st)\<rparr>)"
| "ui_step st (TypeQuantity text) =
     (if selectedStock st = None then st
      else if controls_disabled st then st
      else st\<lparr>quantity := text\<rparr>)"
| "ui_step st ClickSubmit =
     (if selectedStock st = None then st
      else if submit_disabled st then st
      else handlePlaceOrder st)"

section \<open>GameDetails: the tabs\<close>

definition trading_tab_offered :: "bool \<Rightarrow> game \<Rightarrow> bool" where
  "trading_tab_offered isAdmin g = (if isAdmin then False else game_status g = ''live'')"

text \<open>\<open>activeTab\<close> after a click on the Trading button, which exists only when offered.\<close>

definition click_trading_tab :: "bool \<Rightarrow> game \<Rightarrow> string \<Rightarrow> string" where
  "click_trading_tab isAdmin g activeTab =
     (if trading_tab_offered isAdmin g then ''trading'' else activeTab)"

section \<open>GameEditor\<close>

record editor_stock =
  es_symbol :: string
  es_display_name :: string
  es_initial_price :: rat

text \<open>
  The editor's state.  \<^verbatim>\<open>roundDurations\<close> and \<^verbatim>\<open>priceMatrix\<close> are objects keyed by round
  number; an entry of the price matrix is the array of \<^verbatim>\<open>{symbol, price}\<close> of that round.
  \<open>editing_game_id\<close> is \<^verbatim>\<open>game?.id\<close>.
\<close>

record editor_state =
  editing_game_id :: "nat option"
  title :: string
  description :: string
  initialCash :: rat
  totalRounds :: int
  allowShort :: bool
  editor_stocks :: "editor_stock list"
  roundDurations :: "int \<Rightarrow> rat option"
  priceMatrix :: "int \<Rightarrow> (string \<times> rat) list option"
  editor_error :: string

text \<open>The \<^verbatim>\<open>onChange\<close> of the total-rounds field: the value it passes to \<^verbatim>\<open>setTotalRounds\<close>.\<close>

definition totalRounds_onChange :: "string \<Rightarrow> int" where
  "totalRounds_onChange text =
     (let rounds = (case parseInt text of None \<Rightarrow> 1 | Some n \<Rightarrow> if n \<noteq> 0 then n else 1)
      in max 1 (min 20 rounds))"

text \<open>
  \<^verbatim>\<open>toUpperCase\<close> on the letters of ASCII; the source maps the letters beyond ASCII as well.
\<close>

definition toUpperCase :: "string \<Rightarrow> string" where
  "toUpperCase s =
     map (\<lambda>c. let n = (of_char c :: nat) in if 97 \<le> n \<and> n \<le> 122 then char_of (n - 32) else c) s"

text \<open>
  \<^verbatim>\<open>handleAddStock\<close>.  \<^verbatim>\<open>parseFloat\<close> is a parameter: \<open>None\<close> is NaN.
\<close>

definition handleAddStock ::
  "(string \<Rightarrow> rat option) \<Rightarrow> string \<Rightarrow> string \<Rightarrow> string \<Rightarrow> editor_state \<Rightarrow> editor_state" where
  "handleAddStock parseFloat newStockSymbol newStockName newStockPrice ed =
     (if newStockSymbol = [] \<or> newStockName = [] \<or> newStockPrice = []
      then ed\<lparr>editor_error := ''Please fill in all stock fields''\<rparr>
      else case parseFloat newStockPrice of
        None \<Rightarrow> ed\<lparr>editor_error := ''Invalid stock price''\<rparr>
      | Some p \<Rightarrow>
          if p \<le> 0 then ed\<lparr>editor_error := ''Invalid stock price''\<rparr>
          else if List.find (\<lambda>s. toUpperCase (es_symbol s) = toUpperCase newStockSymbol)
                    (editor_stocks ed) \<noteq> None
          then ed\<lparr>editor_error := ''Stock symbol already exists''\<rparr>
          else (let newStock = \<lparr>es_symbol = toUpperCase newStockSymbol,
                                 es_display_name = newStockName, es_initial_price = p\<rparr>
                in ed\<lparr>editor_stocks := editor_stocks ed @ [newStock],
                        priceMatrix :=
                          (\<lambda>i. if 1 \<le> i \<and> i \<le> totalRounds ed
                                then Some ((case priceMatrix ed i of None \<Rightarrow> [] | Some ps \<Rightarrow> ps)
                                           @ [(es_symbol newStock, p)])
                                else priceMatrix ed i),
                        editor_error := []\<rparr>))"

definition handleRemoveStock :: "string \<Rightarrow> editor_state \<Rightarrow> editor_state" where
  "handleRemoveStock symbol ed =
     ed\<lparr>editor_stocks := filter (\<lambda>s. es_symbol s \<noteq> symbol) (editor_stocks ed),
        priceMatrix :=
          (\<lambda>i. case priceMatrix ed i of
                  None \<Rightarrow> None
                | Some ps \<Rightarrow> Some (filter (\<lambda>p. fst p \<noteq> symbol) ps))\<rparr>"

text \<open>
  \<^verbatim>\<open>handlePriceChange\<close>, with the parsed value of the field: the first entry of the symbol in
  the round's array is overwritten, or a new entry is pushed.
\<close>

fun set_first_price :: "string \<Rightarrow> rat \<Rightarrow> (string \<times> rat) list \<Rightarrow> (string \<times> rat) list" where
  "set_first_price symbol p [] = [(symbol, p)]"
| "set_first_price symbol p (e # es) =
     (if fst e = symbol then (symbol, p) # es else e # set_first_price symbol p es)"

definition handlePriceChange :: "int \<Rightarrow> string \<Rightarrow> rat option \<Rightarrow> editor_state \<Rightarrow> editor_state" where
  "handlePriceChange roundNum symbol v ed =
     (case v of
        None \<Rightarrow> ed
      | Some p \<Rightarrow>
          ed\<lparr>priceMatrix :=
               (priceMatrix ed)(roundNum :=
                  Some (set_first_price symbol p
                          (case priceMatrix ed roundNum of None \<Rightarrow> [] | Some ps \<Rightarrow> ps)))\<rparr>)"

text \<open>
  \<^verbatim>\<open>getPriceForRound\<close>:
  \<^verbatim>\<open>priceObj?.price || stocks.find(s => s.symbol === symbol)?.initial_price || 0\<close>.
\<close>

definition getPriceForRound :: "editor_state \<Rightarrow> string \<Rightarrow> int \<Rightarrow> rat" where
  "getPriceForRound ed symbol roundNum =
     (let roundPrices = (case priceMatrix ed roundNum of None \<Rightarrow> [] | Some ps \<Rightarrow> ps);
          initial = (case List.find (\<lambda>s. es_symbol s = symbol) (editor_stocks ed) of
                       None \<Rightarrow> 0
                     | Some s \<Rightarrow> es_initial_price s)
      in case List.find (\<lambda>p. fst p = symbol) roundPrices of
           None \<Rightarrow> initial
         | Some priceObj \<Rightarrow> if snd priceObj \<noteq> 0 then snd priceObj else initial)"

subsection \<open>The writes of the client API\<close>

definition createGame :: "game \<Rightarrow> database \<Rightarrow> database" where
  "createGame gameData db =
     db\<lparr>games := games db @ [gameData\<lparr>game_id := next_game_id db\<rparr>],
        next_game_id := Suc (next_game_id db)\<rparr>"

definition updateGame :: "nat \<Rightarrow> (game \<Rightarrow> game) \<Rightarrow> database \<Rightarrow> database" where
  "updateGame gameId updates db =
     db\<lparr>games := map (\<lambda>g. if game_id g = gameId then updates g else g) (games db)\<rparr>"

definition addStockToGame :: "nat \<Rightarrow> editor_stock \<Rightarrow> database \<Rightarrow> database" where
  "addStockToGame gameId stock db =
     db\<lparr>game_stocks := game_stocks db @
          [\<lparr>stock_game_id = gameId, stock_symbol = es_symbol stock,
            display_name = es_display_name stock,
            stock_initial_price = es_initial_price stock\<rparr>]\<rparr>"

definition createRounds :: "(nat \<times> game_round) list \<Rightarrow> database \<Rightarrow> database" where
  "createRounds rounds db = db\<lparr>game_rounds := game_rounds db @ rounds\<rparr>"

text \<open>\<^verbatim>\<open>setRoundPrices\<close>: the round's prices are deleted, then the new ones inserted.\<close>

definition setRoundPrices :: "nat \<Rightarrow> int \<Rightarrow> (string \<times> rat) list \<Rightarrow> database \<Rightarrow> database" where
  "setRoundPrices gameId roundNumber prices db =
     db\<lparr>round_prices :=
          filter (\<lambda>p. \<not> (price_game_id p = gameId \<and> price_round_number p = roundNumber))
            (round_prices db)
          @ map (\<lambda>sp. \<lparr>price_game_id = gameId, price_round_number = roundNumber,
                        price_symbol = fst sp, price = snd sp\<rparr>) prices\<rparr>"

subsection \<open>handleSave\<close>

text \<open>
  \<^verbatim>\<open>game?.id\<close> where the source tests it (\<^verbatim>\<open>if (gameId)\<close>, \<^verbatim>\<open>if (!game?.id)\<close>): an identifier that
  is 0 is as falsy as no game at all.
\<close>

definition existing_game_id :: "editor_state \<Rightarrow> nat option" where
  "existing_game_id ed =
     (case editing_game_id ed of None \<Rightarrow> None | Some i \<Rightarrow> if i = 0 then None else Some i)"

text \<open>The identifier of the game that is saved: the edited game's, or the one the insert gives.\<close>

definition saved_game_id :: "editor_state \<Rightarrow> database \<Rightarrow> nat" where
  "saved_game_id ed db = (case existing_game_id ed of None \<Rightarrow> next_game_id db | Some i \<Rightarrow> i)"

definition roundsToCreate :: "editor_state \<Rightarrow> nat \<Rightarrow> (nat \<times> game_round) list" where
  "roundsToCreate ed gameId =
     map (\<lambda>i. (gameId,
               \<lparr>round_number = i, round_status = ''pending'',
                duration_minutes =
                  Some (case roundDurations ed i of
                          None \<Rightarrow> 10
                        | Some d \<Rightarrow> if d \<noteq> 0 then d else 10),
                actual_start_time = NoStart\<rparr>))
       [1..totalRounds ed]"

definition pricesOfRound :: "editor_state \<Rightarrow> int \<Rightarrow> (string \<times> rat) list" where
  "pricesOfRound ed roundNum =
     map (\<lambda>stock. (es_symbol stock, getPriceForRound ed (es_symbol stock) roundNum))
       (editor_stocks ed)"

definition writeRoundPrices :: "editor_state \<Rightarrow> nat \<Rightarrow> int list \<Rightarrow> database \<Rightarrow> database" where
  "writeRoundPrices ed gameId roundNums db =
     foldl (\<lambda>d roundNum. setRoundPrices gameId roundNum (pricesOfRound ed roundNum) d) db roundNums"

text \<open>
  \<^verbatim>\<open>handleSave\<close>.  \<open>Inl\<close> is the message of the error that is thrown and shown; \<open>Inr\<close> the
  tables after the save.  \<open>user\<close> is the signed-in user's identifier, \<open>None\<close> when
  \<^verbatim>\<open>getCurrentUser\<close> returns no user; reading \<^verbatim>\<open>user.id\<close> then throws a TypeError, whose
  message is the engine's (V8's is the one given).  The stocks are added only when there is
  no truthy \<^verbatim>\<open>game?.id\<close>; the rounds are inserted and the prices set in both cases.  Every write that
  is reached succeeds: a call that fails midway would leave the earlier writes in place, as
  the source has no transaction around them, and end the save with the call's message.
\<close>

definition handleSave :: "editor_state \<Rightarrow> nat option \<Rightarrow> database \<Rightarrow> string + database" where
  "handleSave ed user db =
     (if trim (title ed) = [] then Inl ''Please enter a game title''
      else if editor_stocks ed = [] then Inl ''Please add at least one stock''
      else if totalRounds ed < 1 then Inl ''Game must have at least one round''
      else
        (let gameId = saved_game_id ed db;
             finish = (\<lambda>d. writeRoundPrices ed gameId [1..totalRounds ed]
                              (createRounds (roundsToCreate ed gameId) d))
         in case existing_game_id ed of
              Some i \<Rightarrow>
                (case getGameById db i of
                   None \<Rightarrow> Inl ''JSON object requested, multiple (or no) rows returned''
                 | Some g \<Rightarrow>
                     Inr (finish
                            (updateGame i
                               (\<lambda>g. g\<lparr>game_title := title ed, game_description := description ed,
                                       initial_cash := initialCash ed,
                                       total_rounds := totalRounds ed,
                                       allow_short := allowShort ed\<rparr>) db)))
            | None \<Rightarrow>
                (case user of
                   None \<Rightarrow> Inl ''Cannot read properties of null (reading 'id')''
                 | Some uid \<Rightarrow>
                     Inr (finish
                            (foldl (\<lambda>d stock. addStockToGame gameId stock d)
                               (createGame
                                  \<lparr>game_id = 0, game_title = title ed,
                                   game_description = description ed, game_status = ''draft'',
                                   initial_cash = initialCash ed, total_rounds = totalRounds ed,
                                   allow_short = allowShort ed, current_round_number = 0,
                                   created_by = Some uid\<rparr> db)
                               (editor_stocks ed))))))"

section \<open>The engine behind the two remote calls\<close>

text \<open>
  \<^verbatim>\<open>advanceToNextRound\<close> and \<^verbatim>\<open>placeOrder\<close> are remote procedure calls; the procedures
  themselves (\<^verbatim>\<open>advance_to_next_round\<close>, \<^verbatim>\<open>place_order_v2\<close>) are not among the client's
  sources.  The two definitions of this section follow the specification's sections 4.1, 4.2
  and 5 instead.
\<close>

datatype game_phase = Draft | Live | GameCompleted | Archived

datatype round_phase = Pending | Active | RoundCompleted

datatype engine_error = InvalidState

text \<open>
  The game as the engine sees it: round \<open>n\<close> is entry \<open>n - 1\<close> of \<open>eg_rounds\<close>, and
  \<open>eg_snapshots\<close> lists the rounds whose end-of-round valuation was taken, in order.
\<close>

record engine_game =
  eg_status :: game_phase
  eg_total_rounds :: nat
  eg_current_round_number :: nat
  eg_rounds :: "round_phase list"
  eg_snapshots :: "nat list"

definition round_phase_of :: "engine_game \<Rightarrow> nat \<Rightarrow> round_phase option" where
  "round_phase_of g n =
     (if 1 \<le> n \<and> n \<le> length (eg_rounds g) then Some (eg_rounds g ! (n - 1)) else None)"

definition completed_rounds :: "engine_game \<Rightarrow> nat" where
  "completed_rounds g = length (filter (\<lambda>p. p = RoundCompleted) (eg_rounds g))"

text \<open>
  The transition out of round \<open>expected\<close> has been made already: the game is past that round,
  or that round is the current one and completed (the last round of a completed game).
\<close>

definition already_advanced :: "nat \<Rightarrow> engine_game \<Rightarrow> bool" where
  "already_advanced expected g =
     (expected < eg_current_round_number g \<or>
      (expected = eg_current_round_number g \<and> round_phase_of g expected = Some RoundCompleted))"

text \<open>
  Modelled from the spec: the procedure \<^verbatim>\<open>advance_to_next_round\<close> behind
  \<^verbatim>\<open>gameApi.advanceToNextRound\<close> is missing from the sources.  Section 4.1: the call fails
  with InvalidState if the game is not live or its current round is not active; otherwise it
  completes the active round, takes the valuation snapshot, and either completes the game
  (last round) or increments the current round number and activates the next round.
  Section 5: the caller claims the transition of the round number it expects; a caller whose
  transition was made already observes the advanced state and returns success without side
  effects.  The result is the resulting current round number.
\<close>

definition advanceRound :: "nat \<Rightarrow> engine_game \<Rightarrow> (engine_error + nat) \<times> engine_game" where
  "advanceRound expected g =
     (let cur = eg_current_round_number g in
      if already_advanced expected g then (Inr cur, g)
      else if eg_status g \<noteq> Live then (Inl InvalidState, g)
      else if expected \<noteq> cur then (Inl InvalidState, g)
      else if round_phase_of g cur \<noteq> Some Active then (Inl InvalidState, g)
      else
        (let g1 = g\<lparr>eg_rounds := (eg_rounds g)[cur - 1 := RoundCompleted],
                     eg_snapshots := eg_snapshots g @ [cur]\<rparr>
         in if cur = eg_total_rounds g then (Inr cur, g1\<lparr>eg_status := GameCompleted\<rparr>)
            else (Inr (Suc cur),
                  g1\<lparr>eg_current_round_number := Suc cur,
                     eg_rounds := (eg_rounds g1)[cur := Active]\<rparr>)))"

datatype reject_reason =
    TradingClosed | UnknownInstrument | InvalidQuantity | InsufficientFunds | InsufficientPosition

datatype order_outcome = Filled rat | Rejected reject_reason

record order_record =
  order_symbol :: string
  order_side :: side
  order_quantity :: int
  outcome :: order_outcome

record holding =
  held_quantity :: int
  held_average_price :: rat

record engine_player =
  player_cash :: rat
  holdings :: "string \<Rightarrow> holding option"

text \<open>
  What an order is executed against: whether the game is live with its current round active,
  whether short selling is allowed, and the RoundPrice of the current round for each symbol of
  the game.
\<close>

record market =
  trading_open :: bool
  short_allowed :: bool
  round_price_of :: "string \<Rightarrow> rat option"

definition quantity_held :: "engine_player \<Rightarrow> string \<Rightarrow> int" where
  "quantity_held pl symbol = (case holdings pl symbol of None \<Rightarrow> 0 | Some h \<Rightarrow> held_quantity h)"

definition average_held :: "engine_player \<Rightarrow> string \<Rightarrow> rat" where
  "average_held pl symbol =
     (case holdings pl symbol of None \<Rightarrow> 0 | Some h \<Rightarrow> held_average_price h)"

text \<open>
  The cost basis after a fill: zero for an empty position, the fill price when the position
  is opened or crosses zero, the weighted average after a buy that adds to it, unchanged after
  a sell that keeps its sign.
\<close>

definition average_after :: "side \<Rightarrow> int \<Rightarrow> rat \<Rightarrow> int \<Rightarrow> rat \<Rightarrow> rat" where
  "average_after sd old_qty old_avg qty p =
     (let new_qty = (if sd = Buy then old_qty + qty else old_qty - qty) in
      if new_qty = 0 then 0
      else if old_qty = 0 \<or> (old_qty < 0 \<and> 0 < new_qty) \<or> (0 < old_qty \<and> new_qty < 0) then p
      else if sd = Buy
      then (of_int old_qty * old_avg + of_int qty * p) / of_int (old_qty + qty)
      else old_avg)"

definition fill_order :: "engine_player \<Rightarrow> string \<Rightarrow> side \<Rightarrow> int \<Rightarrow> rat \<Rightarrow> engine_player" where
  "fill_order pl symbol sd qty p =
     (let old_qty = quantity_held pl symbol;
          new_qty = (if sd = Buy then old_qty + qty else old_qty - qty);
          new_cash = (if sd = Buy then player_cash pl - p * of_int qty
                      else player_cash pl + p * of_int qty)
      in pl\<lparr>player_cash := new_cash,
             holdings := (holdings pl)(symbol :=
               Some \<lparr>held_quantity = new_qty,
                     held_average_price =
                       average_after sd old_qty (average_held pl symbol) qty p\<rparr>)\<rparr>)"

text \<open>
  Modelled from the spec: the procedure \<^verbatim>\<open>place_order_v2\<close> behind \<^verbatim>\<open>gameApi.placeOrder\<close> is
  missing from the sources.  Section 4.2: the preconditions are checked in order (trading
  open, symbol known, quantity positive); a buy needs cash for price times quantity; a sell
  without short selling needs a long position of at least the quantity; every attempt gives an
  order record, and cash and position change only for a filled order.
\<close>

definition placeOrder ::
  "market \<Rightarrow> engine_player \<Rightarrow> string \<Rightarrow> side \<Rightarrow> int \<Rightarrow> order_record \<times> engine_player" where
  "placeOrder m pl symbol sd qty =
     (let rejected = (\<lambda>why. (\<lparr>order_symbol = symbol, order_side = sd, order_quantity = qty,
                               outcome = Rejected why\<rparr>, pl))
      in if \<not> trading_open m then rejected TradingClosed
         else case round_price_of m symbol of
           None \<Rightarrow> rejected UnknownInstrument
         | Some p \<Rightarrow>
             if qty \<le> 0 then rejected InvalidQuantity
             else if sd = Buy \<and> player_cash pl < p * of_int qty then rejected InsufficientFunds
             else if sd = Sell \<and> \<not> short_allowed m \<and> quantity_held pl symbol < qty
             then rejected InsufficientPosition
             else (\<lparr>order_symbol = symbol, order_side = sd, order_quantity = qty,
                    outcome = Filled p\<rparr>,
                   fill_order pl symbol sd qty p))"

section \<open>Example data\<close>

definition live_game :: game where
  "live_game =
     \<lparr>game_id = 1, game_title = ''Cup'', game_description = [], game_status = ''live'',
      initial_cash = 10000, total_rounds = 5, allow_short = False, current_round_number = 2,
      created_by = Some 1\<rparr>"

text \<open>Round 2 started at time 0 and lasts one minute: its deadline is 60000.\<close>

definition round_two :: game_round where
  "round_two =
     \<lparr>round_number = 2, round_status = ''active'', duration_minutes = Some 1,
      actual_start_time = StartAt 0\<rparr>"

text \<open>
  An admin's component: the effect runs at the deadline and schedules timeout 1; the interval
  ticks; timeout 1 fires and the call is under way; \<^verbatim>\<open>game\<close> is set again with the round
  still active, so the effect runs again; the call settles.
\<close>

definition race_trace :: "timer_event list" where
  "race_trace =
     [EffectRuns (Some live_game) [round_two] 60000,
      IntervalTicks 61000,
      TimeoutFires 1 63000,
      EffectRuns (Some live_game) [round_two] 63050,
      CallSettles True]"

text \<open>A component that was used before: its state holds left-over values.\<close>

definition used_timer_state :: timer_state where
  "used_timer_state =
     \<lparr>timeRemaining = 540, autoAdvancing = False, countdownIntervalRef = None,
      autoAdvanceTimeoutRef = Some 4, timeouts = [(4, 1000)], next_timer_id = 5,
      advance_calls = [500]\<rparr>"

definition stock_x :: game_stock where
  "stock_x =
     \<lparr>stock_game_id = 1, stock_symbol = ''X'', display_name = ''X Corp'',
      stock_initial_price = 100\<rparr>"

text \<open>Game 1 in round 1 and, after the advance, in round 2: X costs 100, then 120.\<close>

definition db_round1 :: database where
  "db_round1 =
     \<lparr>games = [live_game\<lparr>current_round_number := 1\<rparr>],
      game_stocks = [stock_x],
      game_rounds =
        [(1, \<lparr>round_number = 1, round_status = ''active'', duration_minutes = Some 10,
               actual_start_time = StartAt 0\<rparr>),
         (1, \<lparr>round_number = 2, round_status = ''pending'', duration_minutes = Some 10,
               actual_start_time = NoStart\<rparr>)],
      round_prices =
        [\<lparr>price_game_id = 1, price_round_number = 1, price_symbol = ''X'', price = 100\<rparr>,
         \<lparr>price_game_id = 1, price_round_number = 2, price_symbol = ''X'', price = 120\<rparr>],
      next_game_id = 2\<rparr>"

definition db_round2 :: database where
  "db_round2 =
     db_round1
       \<lparr>games := [live_game],
        game_rounds :=
          [(1, \<lparr>round_number = 1, round_status = ''completed'', duration_minutes = Some 10,
                 actual_start_time = StartAt 0\<rparr>),
           (1, \<lparr>round_number = 2, round_status = ''active'', duration_minutes = Some 10,
                 actual_start_time = StartAt 600000\<rparr>)]\<rparr>"

definition reload :: "database \<Rightarrow> trading_state \<Rightarrow> trading_state" where
  "reload db st = loadCurrentRound db 1 (loadStocks db 1 st)"

text \<open>The player chooses X in round 1 and places no order; round 2 starts.\<close>

definition chosen_in_round1 :: trading_state where
  "chosen_in_round1 = ui_step (reload db_round1 initial_trading_state) (ChooseStock ''X'')"

definition stale_trading_state :: trading_state where
  "stale_trading_state = reload db_round2 chosen_in_round1"

definition half_share_state :: trading_state where
  "half_share_state = ui_step chosen_in_round1 (TypeQuantity ''.5'')"

definition fraction_state :: trading_state where
  "fraction_state = ui_step chosen_in_round1 (TypeQuantity ''3.9'')"

definition closed_round :: game_round where
  "closed_round =
     \<lparr>round_number = 1, round_status = ''completed'', duration_minutes = Some 10,
      actual_start_time = StartAt 0\<rparr>"

definition acme :: ui_stock where
  "acme = \<lparr>ui_symbol = ''ACME'', ui_initial_price = 100, current_price = Some 100\<rparr>"

definition rich_player :: player_game_state where
  "rich_player = \<lparr>cash = 10050, equity_value = 0, total_value = 10050\<rparr>"

definition paused_state :: trading_state where
  "paused_state =
     \<lparr>stocks = [acme], positions = [], playerState = Some rich_player,
      currentRound = Some closed_round, selectedStock = Some acme, orderType = Buy,
      quantity = ''5'', submitting = False, placeOrder_calls = []\<rparr>"

definition buyer_state :: trading_state where
  "buyer_state =
     \<lparr>stocks = [acme], positions = [], playerState = Some rich_player,
      currentRound = None, selectedStock = Some acme, orderType = Buy, quantity = [],
      submitting = False, placeOrder_calls = []\<rparr>"

definition seller_state :: trading_state where
  "seller_state =
     \<lparr>stocks = [acme],
      positions = [\<lparr>position_symbol = ''ACME'', position_quantity = 7, average_price = 90\<rparr>],
      playerState = Some rich_player, currentRound = None, selectedStock = Some acme,
      orderType = Sell, quantity = [], submitting = False, placeOrder_calls = []\<rparr>"

definition open_market :: market where
  "open_market =
     \<lparr>trading_open = True, short_allowed = False,
      round_price_of = (\<lambda>s. if s = ''X'' then Some 100 else None)\<rparr>"

definition flat_player :: engine_player where
  "flat_player = \<lparr>player_cash = 10000, holdings = (\<lambda>s. None)\<rparr>"

definition round2_of_5 :: engine_game where
  "round2_of_5 =
     \<lparr>eg_status = Live, eg_total_rounds = 5, eg_current_round_number = 2,
      eg_rounds = [RoundCompleted, Active, Pending, Pending, Pending], eg_snapshots = [1]\<rparr>"

text \<open>The doubles nearest to 0.1 and to 10.05.\<close>

definition tenth :: rat where
  "tenth = 3602879701896397 / 36028797018963968"

definition double_10_05 :: rat where
  "double_10_05 = 2828823515942093 / 281474976710656"







definition empty_database :: database where
  "empty_database =
     \<lparr>games = [], game_stocks = [], game_rounds = [], round_prices = [], next_game_id = 1\<rparr>"

text \<open>A new game of two rounds and two stocks; one price was typed in: A costs 11 in round 1.\<close>

definition example_editor :: editor_state where
  "example_editor =
     \<lparr>editing_game_id = None, title = ''Cup'', description = [], initialCash = 10000,
      totalRounds = 2, allowShort = False,
      editor_stocks =
        [\<lparr>es_symbol = ''A'', es_display_name = ''Alpha'', es_initial_price = 10\<rparr>,
         \<lparr>es_symbol = ''B'', es_display_name = ''Beta'', es_initial_price = 20\<rparr>],
      roundDurations = (\<lambda>i. None),
      priceMatrix = (\<lambda>i. if i = 1 then Some [(''A'', 11)] else None),
      editor_error = []\<rparr>"





section \<open>Evaluation lemmas\<close>

lemmas parseInt_eval =
  parseInt_def isWhiteSpace_def isRadixDigit_def digitValue_def digitsValue_def

section \<open>Rounding to a double\<close>

lemma pow2_powi: "pow2 k = 2 powi k"
  by (simp add: pow2_def power_int_def inverse_eq_divide power_divide)

lemma pow2_pos: "0 < pow2 k"
  by (simp add: pow2_powi)










text \<open>The doubles nearest to 0.1 and to 10.05, and two quotients.\<close>

lemma round_double_examples:
  "round_double (1 / 10) = tenth \<and> round_double tenth = tenth \<and>
   round_double (201 / 20) = double_10_05 \<and>
   round_double (3 / tenth) = 30 \<and> \<lfloor>3 / tenth\<rfloor> = 29 \<and>
   \<lfloor>round_double (10050 / double_10_05)\<rfloor> = 999 \<and> \<lfloor>10050 / double_10_05\<rfloor> = 999 \<and>
   round_double (2 ^ 53 + 1) = 2 ^ 53 \<and> round_double (2 ^ 53 + 3) = 2 ^ 53 + 4"
  by code_simp

section \<open>RoundManager: remaining time and the scheduled advance\<close>

lemma calculateTimeRemaining_overdue:
  assumes "actual_start_time r = StartAt s" and "duration_minutes r = Some m"
    and "of_int s + m * 60 * 1000 \<le> of_int now"
  shows "calculateTimeRemaining r now = 0"
  using assms by (simp add: calculateTimeRemaining_def Let_def max_def)

lemma effect_cleanup_ref: "autoAdvanceTimeoutRef (effect_cleanup st) = None"
  by (simp add: effect_cleanup_def clearAutoAdvanceTimeout_def clearCountdown_def
      split: option.splits)

lemma effect_cleanup_next_id: "next_timer_id (effect_cleanup st) = next_timer_id st"
  by (simp add: effect_cleanup_def clearAutoAdvanceTimeout_def clearCountdown_def
      split: option.splits)

lemma effect_cleanup_interval: "countdownIntervalRef (effect_cleanup st) = None"
  by (simp add: effect_cleanup_def clearAutoAdvanceTimeout_def clearCountdown_def
      split: option.splits)

text \<open>
  The remaining time is \<open>max 0 (start + duration - now)\<close> in whole seconds, rounded down: it
  is never negative, and it is zero when the round has no start time or its duration is
  missing or not positive.
\<close>

theorem time_remaining_formula:
  "0 \<le> calculateTimeRemaining r now \<and>
   (actual_start_time r = NoStart \<longrightarrow> calculateTimeRemaining r now = 0) \<and>
   (duration_minutes r = None \<longrightarrow> calculateTimeRemaining r now = 0) \<and>
   (\<forall>m. duration_minutes r = Some m \<and> m \<le> 0 \<longrightarrow> calculateTimeRemaining r now = 0) \<and>
   (\<forall>s m. actual_start_time r = StartAt s \<and> duration_minutes r = Some m \<and> 0 < m \<longrightarrow>
      calculateTimeRemaining r now =
        \<lfloor>max 0 (of_int s + m * 60 * 1000 - of_int now) / 1000\<rfloor>)"
proof -
  have nonneg: "0 \<le> calculateTimeRemaining r now"
    by (simp add: calculateTimeRemaining_def Let_def split: start_time.splits option.splits)
  have nostart: "calculateTimeRemaining r now = 0" if "actual_start_time r = NoStart"
    using that by (simp add: calculateTimeRemaining_def)
  have nodur: "calculateTimeRemaining r now = 0" if "duration_minutes r = None"
    using that by (simp add: calculateTimeRemaining_def split: start_time.splits)
  have nonpos: "calculateTimeRemaining r now = 0" if "duration_minutes r = Some m \<and> m \<le> 0" for m
    using that by (simp add: calculateTimeRemaining_def Let_def split: start_time.splits)
  have formula: "calculateTimeRemaining r now =
        \<lfloor>max 0 (of_int s + m * 60 * 1000 - of_int now) / 1000\<rfloor>"
    if "actual_start_time r = StartAt s \<and> duration_minutes r = Some m \<and> 0 < m" for s m
    using that by (simp add: calculateTimeRemaining_def Let_def)
  from nonneg nostart nodur nonpos formula show ?thesis by blast
qed

theorem time_remaining_formula_witness:
  "calculateTimeRemaining round_two 58500 = 1 \<and> calculateTimeRemaining round_two 59001 = 0 \<and>
   calculateTimeRemaining round_two 70000 = 0 \<and>
   calculateTimeRemaining (round_two\<lparr>actual_start_time := NoStart\<rparr>) 0 = 0 \<and>
   calculateTimeRemaining (round_two\<lparr>duration_minutes := Some 0\<rparr>) 0 = 0"
proof -
  have a: "\<lfloor>(3 :: rat) / 2\<rfloor> = 1" by code_simp
  have b: "\<lfloor>(999 :: rat) / 1000\<rfloor> = 0" by code_simp
  show ?thesis
    using time_remaining_formula [of round_two 58500] time_remaining_formula [of round_two 59001]
      time_remaining_formula [of round_two 70000]
      time_remaining_formula [of "round_two\<lparr>actual_start_time := NoStart\<rparr>" 0]
      time_remaining_formula [of "round_two\<lparr>duration_minutes := Some 0\<rparr>" 0]
    by (simp add: round_two_def a b)
qed

text \<open>
  \<^verbatim>\<open>triggerAutoAdvance\<close> does nothing on a client that is not an admin's and nothing while
  the timeout reference is set; otherwise it schedules one timeout, due 3000 ms later.  The
  interval callback schedules nothing while time remains and takes this same path when none
  does.
\<close>

theorem trigger_schedules_once:
  "(\<not> isAdmin \<longrightarrow> triggerAutoAdvance isAdmin now st = st) \<and>
   (autoAdvanceTimeoutRef st \<noteq> None \<longrightarrow> triggerAutoAdvance isAdmin now st = st) \<and>
   (isAdmin \<and> autoAdvanceTimeoutRef st = None \<longrightarrow>
      timeouts (triggerAutoAdvance isAdmin now st) = timeouts st @ [(next_timer_id st, now + 3000)] \<and>
      autoAdvanceTimeoutRef (triggerAutoAdvance isAdmin now st) = Some (next_timer_id st)) \<and>
   (\<forall>r. countdownIntervalRef st = Some r \<and> 0 < calculateTimeRemaining r now \<longrightarrow>
      timeouts (countdown_tick isAdmin now st) = timeouts st) \<and>
   (\<forall>r. countdownIntervalRef st = Some r \<and> calculateTimeRemaining r now \<le> 0 \<longrightarrow>
      countdown_tick isAdmin now st =
        triggerAutoAdvance isAdmin now
          (clearCountdown (st\<lparr>timeRemaining := calculateTimeRemaining r now\<rparr>)))"
  by (simp add: triggerAutoAdvance_def countdown_tick_def Let_def)

theorem trigger_schedules_once_witness:
  "timeouts (triggerAutoAdvance True 60000 initial_timer_state) = [(1, 63000)] \<and>
   triggerAutoAdvance True 61000 (triggerAutoAdvance True 60000 initial_timer_state) =
     triggerAutoAdvance True 60000 initial_timer_state \<and>
   triggerAutoAdvance False 60000 initial_timer_state = initial_timer_state"
  using trigger_schedules_once [of True 60000 initial_timer_state]
    trigger_schedules_once [of True 61000 "triggerAutoAdvance True 60000 initial_timer_state"]
    trigger_schedules_once [of False 60000 initial_timer_state]
  by (simp add: initial_timer_state_def triggerAutoAdvance_def)

lemma non_admin_step:
  assumes "timeouts st = []" and "advance_calls st = []"
  shows "timeouts (timer_step False st ev) = [] \<and> advance_calls (timer_step False st ev) = []"
  using assms
  by (cases ev)
    (auto simp add: timer_effect_def effect_cleanup_def clearAutoAdvanceTimeout_def
      clearCountdown_def countdown_tick_def timeout_fires_def call_settles_def
      triggerAutoAdvance_def timer_idle_def Let_def split: option.splits)

text \<open>
  On a client that is not an admin's, no timeout is ever pending and
  \<^verbatim>\<open>advanceToNextRound\<close> is never invoked by the timer, whatever happens.
\<close>

theorem non_admin_never_schedules:
  "timeouts (timer_run False evs) = [] \<and> advance_calls (timer_run False evs) = []"
proof (induction evs rule: rev_induct)
  case Nil
  then show ?case by (simp add: timer_run_def initial_timer_state_def)
next
  case (snoc ev evs)
  then show ?case
    using non_admin_step [of "timer_run False evs" ev] by (simp add: timer_run_def)
qed

lemma pending_tracked_cleanup:
  assumes "pending_tracked st"
  shows "timeouts (effect_cleanup st) = [] \<and> autoAdvanceTimeoutRef (effect_cleanup st) = None"
  using assms
  by (auto simp add: pending_tracked_def effect_cleanup_def clearAutoAdvanceTimeout_def
      clearCountdown_def split: option.splits)

lemma pending_tracked_trigger:
  assumes "pending_tracked st"
  shows "pending_tracked (triggerAutoAdvance isAdmin now st)"
  using assms by (auto simp add: pending_tracked_def triggerAutoAdvance_def split: option.splits)

lemma pending_tracked_effect:
  assumes "timeouts st = []" and "autoAdvanceTimeoutRef st = None"
  shows "pending_tracked (timer_effect isAdmin g rounds now st)"
  using assms
  by (auto simp add: timer_effect_def Let_def clearCountdown_def pending_tracked_def
      triggerAutoAdvance_def timer_idle_def clearAutoAdvanceTimeout_def split: option.splits)

lemma pending_tracked_step:
  assumes "pending_tracked st"
  shows "pending_tracked (handler_step isAdmin st h)"
proof (cases h)
  case (EffectHandler g rounds now)
  then show ?thesis
    using pending_tracked_cleanup [OF assms] by (simp add: pending_tracked_effect)
next
  case (TickHandler now)
  show ?thesis
  proof (cases "countdownIntervalRef st")
    case None
    with TickHandler assms show ?thesis by (simp add: countdown_tick_def)
  next
    case (Some r)
    have t: "pending_tracked (st\<lparr>timeRemaining := x\<rparr>)" for x
      using assms by (simp add: pending_tracked_def split: option.splits)
    have c: "pending_tracked (clearCountdown (st\<lparr>timeRemaining := x\<rparr>))" for x
      using assms by (simp add: pending_tracked_def clearCountdown_def split: option.splits)
    from Some TickHandler show ?thesis
      by (simp add: countdown_tick_def Let_def t pending_tracked_trigger [OF c])
  qed
next
  case (TimeoutHandler i now ok)
  show ?thesis
  proof (cases "timeout_fires i now st = st")
    case True
    with TimeoutHandler assms show ?thesis by (simp add: Let_def)
  next
    case False
    then obtain t where found: "List.find (\<lambda>t. fst t = i) (timeouts st) = Some t"
      by (auto simp add: timeout_fires_def split: option.splits)
    then have mem: "t \<in> set (timeouts st)" and key: "fst t = i"
      by (auto simp add: find_Some_iff)
    from mem assms key have "map fst (timeouts st) = [i]"
      by (cases "autoAdvanceTimeoutRef st"; cases "timeouts st")
        (auto simp add: pending_tracked_def)
    then have gone: "filter (\<lambda>t. fst t \<noteq> i) (timeouts st) = []"
      by (cases "timeouts st") auto
    from False have fired: "timeouts (timeout_fires i now st) = filter (\<lambda>t. fst t \<noteq> i) (timeouts st)"
      by (auto simp add: timeout_fires_def split: option.splits if_splits)
    from TimeoutHandler False fired gone show ?thesis
      by (simp add: Let_def call_settles_def pending_tracked_def)
  qed
qed

text \<open>
  When every call settles before the component handles anything else, the timeout reference
  accounts for every pending timeout, and at most one timeout is pending at any time.
\<close>

theorem one_pending_when_calls_settle_at_once:
  "pending_tracked (foldl (handler_step isAdmin) initial_timer_state hs) \<and>
   length (timeouts (foldl (handler_step isAdmin) initial_timer_state hs)) \<le> 1"
proof -
  have inv: "pending_tracked (foldl (handler_step isAdmin) initial_timer_state hs)"
  proof (induction hs rule: rev_induct)
    case Nil
    then show ?case by (simp add: pending_tracked_def initial_timer_state_def)
  next
    case (snoc h hs)
    then show ?case by (simp add: pending_tracked_step)
  qed
  have "length (timeouts st) \<le> 1" if "pending_tracked st" for st
    using that
    by (cases "autoAdvanceTimeoutRef st"; cases "timeouts st")
      (auto simp add: pending_tracked_def)
  with inv show ?thesis by blast
qed

text \<open>
  Claim C1, evaluated on \<open>race_trace\<close>.  After the trace, timeout 2 is pending and the timeout
  reference is empty: the \<^verbatim>\<open>finally\<close> block of the first call cleared the reference that
  by then belonged to timeout 2.  The next trigger, from the interval one second after the
  effect ran, schedules timeout 3 while timeout 2 is pending.
\<close>

theorem second_timeout_while_one_pending:
  "timeouts (timer_run True race_trace) = [(2, 66050)] \<and>
   autoAdvanceTimeoutRef (timer_run True race_trace) = None \<and>
   timeouts (triggerAutoAdvance True 64050 (timer_run True race_trace)) =
     [(2, 66050), (3, 67050)] \<and>
   timeouts (timer_step True (timer_run True race_trace) (IntervalTicks 64050)) =
     [(2, 66050), (3, 67050)]"
  by code_simp

text \<open>
  Claim C7.  Whenever the timer effect runs for a live game whose current round is active,
  on a fresh component or on one with any earlier state, and the stored start time plus the
  stored duration is not after the clock, the effect takes the path of
  \<^verbatim>\<open>triggerAutoAdvance\<close> at once, the path the interval callback takes when the time is up.
  The earlier state has no part in the decision: the reference is cleared by the cleanup, so
  on an admin's client the advance is always scheduled, 3000 ms from now.
\<close>

theorem overdue_round_triggers_on_init:
  assumes live: "game_status gm = ''live''"
    and cur: "find_current_round gm rounds = Some r"
    and act: "round_status r = ''active''"
    and start: "actual_start_time r = StartAt s"
    and dur: "duration_minutes r = Some m"
    and past: "of_int s + m * 60 * 1000 \<le> of_int now"
  shows "timer_step isAdmin st (EffectRuns (Some gm) rounds now) =
           (triggerAutoAdvance isAdmin now ((effect_cleanup st)\<lparr>timeRemaining := 0\<rparr>))
             \<lparr>countdownIntervalRef := Some r\<rparr> \<and>
         (countdownIntervalRef st = Some r \<longrightarrow>
            countdown_tick isAdmin now st =
              triggerAutoAdvance isAdmin now (clearCountdown (st\<lparr>timeRemaining := 0\<rparr>))) \<and>
         (isAdmin \<longrightarrow>
            timeouts (timer_step isAdmin st (EffectRuns (Some gm) rounds now)) =
              timeouts (effect_cleanup st) @ [(next_timer_id st, now + 3000)] \<and>
            autoAdvanceTimeoutRef (timer_step isAdmin st (EffectRuns (Some gm) rounds now)) =
              Some (next_timer_id st) \<and>
            autoAdvancing (timer_step isAdmin st (EffectRuns (Some gm) rounds now)))"
proof -
  have zero: "calculateTimeRemaining r now = 0"
    using start dur past by (rule calculateTimeRemaining_overdue)
  have cc: "clearCountdown (effect_cleanup st) = effect_cleanup st"
    by (simp add: clearCountdown_def effect_cleanup_interval [symmetric])
  have eff: "timer_step isAdmin st (EffectRuns (Some gm) rounds now) =
           (triggerAutoAdvance isAdmin now ((effect_cleanup st)\<lparr>timeRemaining := 0\<rparr>))
             \<lparr>countdownIntervalRef := Some r\<rparr>"
    using live cur act zero cc by (simp add: timer_effect_def Let_def)
  have tick: "countdown_tick isAdmin now st =
      triggerAutoAdvance isAdmin now (clearCountdown (st\<lparr>timeRemaining := 0\<rparr>))"
    if "countdownIntervalRef st = Some r"
    using that zero by (simp add: countdown_tick_def Let_def)
  have adm: "timeouts (timer_step isAdmin st (EffectRuns (Some gm) rounds now)) =
              timeouts (effect_cleanup st) @ [(next_timer_id st, now + 3000)] \<and>
            autoAdvanceTimeoutRef (timer_step isAdmin st (EffectRuns (Some gm) rounds now)) =
              Some (next_timer_id st) \<and>
            autoAdvancing (timer_step isAdmin st (EffectRuns (Some gm) rounds now))"
    if isAdmin
    unfolding eff using that
    by (simp add: triggerAutoAdvance_def effect_cleanup_ref effect_cleanup_next_id)
  from eff tick adm show ?thesis by blast
qed

theorem overdue_round_triggers_on_init_witness:
  "timeouts (timer_step True initial_timer_state (EffectRuns (Some live_game) [round_two] 90000)) =
     [(1, 93000)] \<and>
   timeouts (timer_step True used_timer_state (EffectRuns (Some live_game) [round_two] 90000)) =
     [(5, 93000)] \<and>
   autoAdvanceTimeoutRef
     (timer_step True used_timer_state (EffectRuns (Some live_game) [round_two] 90000)) = Some 5"
proof -
  have h1: "game_status live_game = ''live''"
    by (simp add: live_game_def)
  have h2: "find_current_round live_game [round_two] = Some round_two"
    by (simp add: find_current_round_def live_game_def round_two_def)
  have h3: "round_status round_two = ''active''"
    by (simp add: round_two_def)
  have h4: "actual_start_time round_two = StartAt 0"
    by (simp add: round_two_def)
  have h5: "duration_minutes round_two = Some 1"
    by (simp add: round_two_def)
  have h6: "of_int 0 + (1 :: rat) * 60 * 1000 \<le> of_int 90000"
    by simp
  note t = overdue_round_triggers_on_init [OF h1 h2 h3 h4 h5 h6, of True,
      THEN conjunct2, THEN conjunct2, rule_format, OF TrueI]
  have fresh: "timeouts (effect_cleanup initial_timer_state) = []"
    "next_timer_id initial_timer_state = 1"
    by (simp_all add: effect_cleanup_def clearAutoAdvanceTimeout_def clearCountdown_def
        initial_timer_state_def)
  have used: "timeouts (effect_cleanup used_timer_state) = []"
    "next_timer_id used_timer_state = 5"
    by (simp_all add: effect_cleanup_def clearAutoAdvanceTimeout_def clearCountdown_def
        used_timer_state_def)
  from t [of initial_timer_state] t [of used_timer_state] show ?thesis
    by (simp add: fresh used)
qed

section \<open>TradingInterface: when an order can be placed\<close>

lemma canTrade_iff:
  "canTrade st \<longleftrightarrow> (\<exists>r. currentRound st = Some r \<and> round_status r = ''active'')"
  by (cases "currentRound st") (simp_all add: canTrade_def)

lemma ui_step_closed: "\<not> canTrade st \<Longrightarrow> ui_step st ev = st"
  by (cases ev) (simp_all add: controls_disabled_def submit_disabled_def)

text \<open>
  Claim C2.  In every state of the trading interface whose current round is missing or not
  active, the buy/sell toggle, the stock selector, the quantity field, the Max button and the
  submit button are disabled, so nothing the player does changes the state or invokes
  \<^verbatim>\<open>placeOrder\<close>; a step that does invoke \<^verbatim>\<open>placeOrder\<close> starts in a state whose current
  round is active.  The Trading tab is offered only for a game whose status is live, and only
  a click on it makes it the active tab.
\<close>

theorem trading_gated_by_active_round:
  "((\<forall>r. currentRound st = Some r \<longrightarrow> round_status r \<noteq> ''active'') \<longrightarrow>
      controls_disabled st \<and> submit_disabled st \<and> ui_step st ev = st \<and>
      placeOrder_calls (ui_step st ev) = placeOrder_calls st) \<and>
   (placeOrder_calls (ui_step st ev) \<noteq> placeOrder_calls st \<longrightarrow>
      (\<exists>r. currentRound st = Some r \<and> round_status r = ''active'')) \<and>
   (trading_tab_offered isAdmin g \<longrightarrow> game_status g = ''live'') \<and>
   (click_trading_tab isAdmin g activeTab = ''trading'' \<longrightarrow>
      activeTab = ''trading'' \<or> game_status g = ''live'')"
proof -
  have closed: "ui_step st ev = st" if "\<not> canTrade st"
    using that by (rule ui_step_closed)
  have a: "controls_disabled st \<and> submit_disabled st \<and> ui_step st ev = st \<and>
      placeOrder_calls (ui_step st ev) = placeOrder_calls st"
    if "\<forall>r. currentRound st = Some r \<longrightarrow> round_status r \<noteq> ''active''"
  proof -
    from that have "\<not> canTrade st" by (simp add: canTrade_iff)
    then show ?thesis
      by (simp add: closed controls_disabled_def submit_disabled_def)
  qed
  have b: "\<exists>r. currentRound st = Some r \<and> round_status r = ''active''"
    if "placeOrder_calls (ui_step st ev) \<noteq> placeOrder_calls st"
  proof (rule ccontr)
    assume "\<not> ?thesis"
    then have "\<not> canTrade st" by (simp add: canTrade_iff)
    with closed that show False by simp
  qed
  have c: "game_status g = ''live''" if "trading_tab_offered isAdmin g"
    using that by (simp add: trading_tab_offered_def split: if_splits)
  have d: "activeTab = ''trading'' \<or> game_status g = ''live''"
    if "click_trading_tab isAdmin g activeTab = ''trading''"
    using that c by (auto simp add: click_trading_tab_def split: if_splits)
  from a b c d show ?thesis by blast
qed

theorem trading_gated_by_active_round_witness:
  "currentRound paused_state = Some closed_round \<and> round_status closed_round = ''completed'' \<and>
   selectedStock paused_state = Some acme \<and> parseInt (quantity paused_state) = Some 5 \<and>
   controls_disabled paused_state \<and> submit_disabled paused_state \<and>
   ui_step paused_state ClickSubmit = paused_state \<and>
   placeOrder_calls (ui_step paused_state ClickSubmit) = []"
  using trading_gated_by_active_round [of paused_state ClickSubmit]
  by (simp add: paused_state_def closed_round_def parseInt_eval)

section \<open>TradingInterface: the price of an instrument\<close>

text \<open>
  After \<^verbatim>\<open>loadStocks\<close> for a game that has started, the list holds the game's stocks, and a
  stock for which the current round has a price other than zero carries that price: a row of
  the game and of the round that was current at the load.
\<close>

theorem listed_price_is_current_round_price:
  assumes game: "getGameById db gameId = Some g"
    and started: "current_round_number g \<noteq> 0"
  shows "map ui_symbol (stocks (loadStocks db gameId st)) =
           map stock_symbol (getStocks db gameId) \<and>
         (\<forall>s \<in> set (stocks (loadStocks db gameId st)). \<forall>rp.
            List.find (\<lambda>p. price_symbol p = ui_symbol s)
              (getRoundPrices db gameId (current_round_number g)) = Some rp \<and> price rp \<noteq> 0 \<longrightarrow>
            current_price s = Some (price rp) \<and>
            price_round_number rp = current_round_number g \<and> price_game_id rp = gameId)"
proof -
  have row: "price_round_number rp = current_round_number g \<and> price_game_id rp = gameId"
    if "List.find (\<lambda>p. price_symbol p = sym)
          (getRoundPrices db gameId (current_round_number g)) = Some rp" for rp sym
  proof -
    from that have "rp \<in> set (getRoundPrices db gameId (current_round_number g))"
      by (auto simp add: find_Some_iff)
    then show ?thesis by (simp add: getRoundPrices_def)
  qed
  have list: "stocks (loadStocks db gameId st) =
      map (\<lambda>stock. \<lparr>ui_symbol = stock_symbol stock,
                     ui_initial_price = stock_initial_price stock,
                     current_price =
                       Some (merged_price (getRoundPrices db gameId (current_round_number g))
                               stock)\<rparr>)
        (getStocks db gameId)"
    using game started by (simp add: loadStocks_def Let_def)
  have syms: "map ui_symbol (stocks (loadStocks db gameId st)) =
      map stock_symbol (getStocks db gameId)"
    by (simp add: list comp_def)
  have priced: "current_price s = Some (price rp)"
    if "s \<in> set (stocks (loadStocks db gameId st))"
      and "List.find (\<lambda>p. price_symbol p = ui_symbol s)
             (getRoundPrices db gameId (current_round_number g)) = Some rp \<and> price rp \<noteq> 0"
    for s rp
    using that by (auto simp add: list merged_price_def)
  from syms priced row show ?thesis by blast
qed

theorem listed_price_is_current_round_price_witness:
  "map ui_symbol (stocks (loadStocks db_round2 1 initial_trading_state)) = [''X''] \<and>
   map current_price (stocks (loadStocks db_round2 1 initial_trading_state)) = [Some 120] \<and>
   map price (getRoundPrices db_round2 1 2) = [120]"
proof -
  have g: "getGameById db_round2 1 = Some live_game"
    by (simp add: getGameById_def db_round2_def db_round1_def live_game_def)
  have n: "current_round_number live_game \<noteq> 0"
    by (simp add: live_game_def)
  have e: "map current_price (stocks (loadStocks db_round2 1 initial_trading_state)) = [Some 120]"
    "map price (getRoundPrices db_round2 1 2) = [120]"
    "map stock_symbol (getStocks db_round2 1) = [''X'']"
    by code_simp+
  from listed_price_is_current_round_price [OF g n, of initial_trading_state] e
  show ?thesis by simp
qed

text \<open>
  Claim C3, evaluated on \<open>stale_trading_state\<close>: the player chose X in round 1, where X costs
  100, and round 2 has started, where X costs 120.  The reload put 120 into the list of
  stocks, but the selected stock is the object chosen in round 1: the order summary shows 100
  per share, the Max button divides by 100, and an order can be submitted from this state.
\<close>

theorem order_summary_keeps_earlier_round_price:
  "map price (getRoundPrices db_round2 1 1) = [100] \<and>
   map price (getRoundPrices db_round2 1 2) = [120] \<and>
   map round_number (filter (\<lambda>r. round_status r = ''active'') (getRounds db_round2 1)) = [2] \<and>
   map current_price (stocks stale_trading_state) = [Some 120] \<and>
   order_summary_price stale_trading_state = Some 100 \<and>
   canTrade stale_trading_state \<and>
   placeOrder_calls (ui_step (ui_step stale_trading_state (TypeQuantity ''10'')) ClickSubmit) =
     [(''X'', Buy, Some 10)]"
  by code_simp

section \<open>TradingInterface: quantities\<close>





text \<open>
  Claim C6.  When short selling is not allowed, a sell of more than the player holds is
  rejected with InsufficientPosition and leaves cash and positions as they were; and the
  maximum the interface gives for a sell is the quantity of the player's position in the
  symbol, zero when there is no position.
\<close>

theorem sell_limited_to_position:
  "(trading_open m \<and> round_price_of m symbol = Some p \<and> 0 < qty \<and>
      \<not> short_allowed m \<and> quantity_held pl symbol < qty \<longrightarrow>
      outcome (fst (placeOrder m pl symbol Sell qty)) = Rejected InsufficientPosition \<and>
      snd (placeOrder m pl symbol Sell qty) = pl) \<and>
   (playerState st = Some ps \<and> orderType st = Sell \<longrightarrow>
      calculateMaxQuantity st (Some stock) =
        (case getPosition st (ui_symbol stock) of
           None \<Rightarrow> Num 0
         | Some pos \<Rightarrow> Num (of_int (position_quantity pos))))"
  by (simp add: placeOrder_def calculateMaxQuantity_def)

theorem sell_limited_to_position_witness:
  "quantity_held flat_player ''X'' = 0 \<and>
   outcome (fst (placeOrder open_market flat_player ''X'' Sell 10)) =
     Rejected InsufficientPosition \<and>
   snd (placeOrder open_market flat_player ''X'' Sell 10) = flat_player \<and>
   calculateMaxQuantity seller_state (Some acme) = Num 7 \<and>
   calculateMaxQuantity seller_state (Some (acme\<lparr>ui_symbol := ''Y''\<rparr>)) = Num 0"
  using sell_limited_to_position [of open_market "''X''" 100 10 flat_player seller_state
      rich_player acme]
    sell_limited_to_position [of open_market "''X''" 100 10 flat_player seller_state
      rich_player "acme\<lparr>ui_symbol := ''Y''\<rparr>"]
  by (simp add: open_market_def flat_player_def seller_state_def quantity_held_def
      getPosition_def acme_def)

text \<open>
  \<^verbatim>\<open>handlePlaceOrder\<close> leaves the state alone when no stock is selected, when the quantity
  text is empty and when the text parses to a number that is zero or less; otherwise it calls
  \<^verbatim>\<open>placeOrder\<close> with \<^verbatim>\<open>parseInt\<close> of the text as the quantity.
\<close>

theorem order_quantity_is_parseInt:
  "(selectedStock st = None \<or> quantity st = [] \<or> parsed_le_zero (parseInt (quantity st)) \<longrightarrow>
      handlePlaceOrder st = st) \<and>
   (\<forall>stock. selectedStock st = Some stock \<and> quantity st \<noteq> [] \<and>
       \<not> parsed_le_zero (parseInt (quantity st)) \<longrightarrow>
      placeOrder_calls (handlePlaceOrder st) =
        placeOrder_calls st @ [(ui_symbol stock, orderType st, parseInt (quantity st))])"
  by (auto simp add: handlePlaceOrder_def split: option.splits)

theorem order_quantity_is_parseInt_witness:
  "quantity fraction_state = ''3.9'' \<and> parseInt ''3.9'' = Some 3 \<and>
   placeOrder_calls (handlePlaceOrder fraction_state) = [(''X'', Buy, Some 3)]"
proof -
  have e: "quantity fraction_state = ''3.9''" "parseInt ''3.9'' = Some 3"
    "selectedStock fraction_state =
       Some \<lparr>ui_symbol = ''X'', ui_initial_price = 100, current_price = Some 100\<rparr>"
    "placeOrder_calls fraction_state = []" "orderType fraction_state = Buy"
    by code_simp+
  from order_quantity_is_parseInt [of fraction_state] e show ?thesis
    by (simp add: parsed_le_zero_def)
qed

text \<open>
  Claim C10, evaluated on \<open>half_share_state\<close>: a stock is selected, the round is active and
  the quantity field holds \<^verbatim>\<open>.5\<close>.  \<^verbatim>\<open>parseInt\<close> of it is NaN, which is not greater than zero,
  and the test \<^verbatim>\<open>parseInt(quantity) <= 0\<close> is false for NaN: the submit button is enabled and
  a click calls \<^verbatim>\<open>placeOrder\<close> with NaN as the quantity.
\<close>

theorem unparsed_quantity_is_submitted:
  "selectedStock half_share_state \<noteq> None \<and>
   quantity half_share_state = ''.5'' \<and>
   parseInt (quantity half_share_state) = None \<and>
   canTrade half_share_state \<and>
   \<not> submit_disabled half_share_state \<and>
   placeOrder_calls (ui_step half_share_state ClickSubmit) = [(''X'', Buy, None)]"
  by code_simp

section \<open>GameEditor: saving a game\<close>































text \<open>\<^verbatim>\<open>trim\<close> on a title of spaces of several kinds, and on one with a name in it.\<close>

lemma trim_examples:
  "trim [CHR 0x20, CHR 0xC2, CHR 0xA0, CHR 0xE2, CHR 0x80, CHR 0x83, CHR 0x09] = [] \<and>
   trim ([CHR 0xC2, CHR 0xA0] @ ''Cup final '' @ [CHR 0xE3, CHR 0x80, CHR 0x80]) = ''Cup final'' \<and>
   (case handleSave (example_editor\<lparr>title := [CHR 0xC2, CHR 0xA0]\<rparr>) (Some 7) empty_database of
      Inl message \<Rightarrow> message = ''Please enter a game title''
    | Inr db' \<Rightarrow> False) \<and>
   (case handleSave example_editor None empty_database of
      Inl message \<Rightarrow> message = ''Cannot read properties of null (reading 'id')''
    | Inr db' \<Rightarrow> False)"
  by code_simp

lemma toUpperCase_idem: "toUpperCase (toUpperCase s) = toUpperCase s"
proof -
  define up where
    "up = (\<lambda>c :: char. let n = (of_char c :: nat) in
             if 97 \<le> n \<and> n \<le> 122 then char_of (n - 32) else c)"
  have up_eq: "up x = (if 97 \<le> (of_char x :: nat) \<and> (of_char x :: nat) \<le> 122
                       then char_of (of_char x - 32 :: nat) else x)" for x
    by (simp add: up_def Let_def)
  have fixed: "up (up c) = up c" for c
  proof (cases "97 \<le> (of_char c :: nat) \<and> (of_char c :: nat) \<le> 122")
    case True
    then have "(of_char c - 32 :: nat) mod 256 = of_char c - 32"
      by (intro mod_less) arith
    then have "(of_char (char_of (of_char c - 32 :: nat) :: char) :: nat) = of_char c - 32"
      by (simp add: of_char_of)
    with True have "(of_char (up c) :: nat) = of_char c - 32"
      by (simp add: up_eq)
    with True have "\<not> (97 \<le> (of_char (up c) :: nat) \<and> (of_char (up c) :: nat) \<le> 122)"
      by arith
    with up_eq [of "up c"] show ?thesis by simp
  next
    case False
    with up_eq [of c] have "up c = c" by (simp only: if_False)
    then show ?thesis by simp
  qed
  have "toUpperCase s = map up s" for s
    by (simp add: toUpperCase_def up_def)
  then show ?thesis by (simp add: fixed)
qed

text \<open>
  The assumption of distinct symbols: \<^verbatim>\<open>handleAddStock\<close> and \<^verbatim>\<open>handleRemoveStock\<close> keep the
  symbols of the editor's stocks distinct.
\<close>

theorem added_symbols_stay_distinct:
  assumes "distinct (map es_symbol (editor_stocks ed))"
  shows "distinct (map es_symbol (editor_stocks (handleAddStock parseFloat newSymbol name ptext ed))) \<and>
         distinct (map es_symbol (editor_stocks (handleRemoveStock newSymbol ed)))"
proof -
  have rem: "distinct (map es_symbol (editor_stocks (handleRemoveStock newSymbol ed)))"
    using assms by (simp add: handleRemoveStock_def distinct_map_filter)
  have new: "toUpperCase newSymbol \<notin> es_symbol ` set (editor_stocks ed)"
    if "List.find (\<lambda>s. toUpperCase (es_symbol s) = toUpperCase newSymbol) (editor_stocks ed) = None"
  proof
    assume "toUpperCase newSymbol \<in> es_symbol ` set (editor_stocks ed)"
    then obtain s where s: "s \<in> set (editor_stocks ed)" and "es_symbol s = toUpperCase newSymbol"
      by auto
    then have "toUpperCase (es_symbol s) = toUpperCase newSymbol"
      by (simp add: toUpperCase_idem)
    with s that show False by (auto simp add: find_None_iff)
  qed
  have add: "distinct (map es_symbol (editor_stocks (handleAddStock parseFloat newSymbol name ptext ed)))"
    using assms new
    by (auto simp add: handleAddStock_def Let_def split: option.splits)
  from add rem show ?thesis by simp
qed

theorem added_symbols_stay_distinct_witness:
  "map es_symbol
     (editor_stocks (handleAddStock (\<lambda>t. Some 5) ''c'' ''Gamma'' ''5'' example_editor)) =
     [''A'', ''B'', ''C''] \<and>
   map es_symbol
     (editor_stocks (handleAddStock (\<lambda>t. Some 5) ''a'' ''Again'' ''5'' example_editor)) =
     [''A'', ''B''] \<and>
   distinct (map es_symbol
     (editor_stocks (handleAddStock (\<lambda>t. Some 5) ''c'' ''Gamma'' ''5'' example_editor)))"
proof -
  have d: "distinct (map es_symbol (editor_stocks example_editor))"
    by code_simp
  have e: "map es_symbol
     (editor_stocks (handleAddStock (\<lambda>t. Some 5) ''c'' ''Gamma'' ''5'' example_editor)) =
     [''A'', ''B'', ''C'']"
    "map es_symbol
     (editor_stocks (handleAddStock (\<lambda>t. Some 5) ''a'' ''Again'' ''5'' example_editor)) =
     [''A'', ''B'']"
    by code_simp+
  from added_symbols_stay_distinct [OF d, of "\<lambda>t. Some 5" "''c''" "''Gamma''" "''5''"] e
  show ?thesis by simp
qed

section \<open>GameEditor: the number of rounds\<close>

text \<open>
  Claim C9.  Whatever is typed into the total-rounds field, the value handed to
  \<^verbatim>\<open>setTotalRounds\<close> lies in 1..20: a parsed value above 20 becomes 20, a parsed value below 1
  and text that does not parse become 1, and a parsed value in 1..20 is kept.
\<close>

theorem totalRounds_clamped:
  "1 \<le> totalRounds_onChange text \<and> totalRounds_onChange text \<le> 20 \<and>
   (parseInt text = None \<longrightarrow> totalRounds_onChange text = 1) \<and>
   (\<forall>n. parseInt text = Some n \<longrightarrow>
      (20 < n \<longrightarrow> totalRounds_onChange text = 20) \<and>
      (n < 1 \<longrightarrow> totalRounds_onChange text = 1) \<and>
      (1 \<le> n \<and> n \<le> 20 \<longrightarrow> totalRounds_onChange text = n))"
  by (auto simp add: totalRounds_onChange_def Let_def)

theorem totalRounds_clamped_witness:
  "parseInt ''25'' = Some 25 \<and> totalRounds_onChange ''25'' = 20 \<and>
   parseInt ''-3'' = Some (- 3) \<and> totalRounds_onChange ''-3'' = 1 \<and>
   parseInt ''0'' = Some 0 \<and> totalRounds_onChange ''0'' = 1 \<and>
   parseInt ''abc'' = None \<and> totalRounds_onChange ''abc'' = 1 \<and>
   parseInt ''7'' = Some 7 \<and> totalRounds_onChange ''7'' = 7"
  using totalRounds_clamped [of "''25''"] totalRounds_clamped [of "''-3''"]
    totalRounds_clamped [of "''0''"] totalRounds_clamped [of "''abc''"]
    totalRounds_clamped [of "''7''"]
  by (simp add: parseInt_eval)

section \<open>The engine: advancing a round twice\<close>

lemma count_completed_update:
  assumes "i < length rs" and "rs ! i \<noteq> RoundCompleted"
  shows "length (filter (\<lambda>p. p = RoundCompleted) (rs[i := RoundCompleted])) =
         Suc (length (filter (\<lambda>p. p = RoundCompleted) rs))"
  using assms
proof (induction rs arbitrary: i)
  case Nil
  then show ?case by simp
next
  case (Cons r rs)
  then show ?case by (cases i) auto
qed

lemma count_completed_activate:
  assumes "i < length rs \<Longrightarrow> rs ! i \<noteq> RoundCompleted"
  shows "length (filter (\<lambda>p. p = RoundCompleted) (rs[i := Active])) =
         length (filter (\<lambda>p. p = RoundCompleted) rs)"
  using assms
proof (induction rs arbitrary: i)
  case Nil
  then show ?case by simp
next
  case (Cons r rs)
  then show ?case by (cases i) auto
qed

lemma advanceRound_performs:
  assumes "eg_status g = Live" and "eg_current_round_number g = n"
    and "round_phase_of g n = Some Active"
  shows "advanceRound n g =
     (let g1 = g\<lparr>eg_rounds := (eg_rounds g)[n - 1 := RoundCompleted],
                  eg_snapshots := eg_snapshots g @ [n]\<rparr>
      in if n = eg_total_rounds g then (Inr n, g1\<lparr>eg_status := GameCompleted\<rparr>)
         else (Inr (Suc n),
               g1\<lparr>eg_current_round_number := Suc n,
                  eg_rounds := (eg_rounds g1)[n := Active]\<rparr>))"
  using assms by (simp add: advanceRound_def already_advanced_def Let_def)

lemma advanceRound_observes:
  assumes "already_advanced n g"
  shows "advanceRound n g = (Inr (eg_current_round_number g), g)"
  using assms by (simp add: advanceRound_def)

text \<open>
  Claim C4.  For a live game whose current round \<open>n\<close> is active (and whose next round is not
  completed), two calls in succession that claim the transition of round \<open>n\<close> give the same
  result, the current round number after the first call; the second call leaves the game as
  the first left it; and after both, exactly one more round is completed than before.
\<close>

theorem advanceRound_idempotent:
  assumes live: "eg_status g = Live"
    and cur: "eg_current_round_number g = n"
    and active: "round_phase_of g n = Some Active"
    and nxt: "round_phase_of g (Suc n) \<noteq> Some RoundCompleted"
  shows "fst (advanceRound n (snd (advanceRound n g))) = fst (advanceRound n g) \<and>
         snd (advanceRound n (snd (advanceRound n g))) = snd (advanceRound n g) \<and>
         fst (advanceRound n g) = Inr (eg_current_round_number (snd (advanceRound n g))) \<and>
         completed_rounds (snd (advanceRound n (snd (advanceRound n g)))) =
           Suc (completed_rounds g)"
proof -
  from active have n1: "1 \<le> n" and nlen: "n \<le> length (eg_rounds g)"
    and act: "eg_rounds g ! (n - 1) = Active"
    by (simp_all add: round_phase_of_def split: if_splits)
  let ?g' = "snd (advanceRound n g)"
  have res: "fst (advanceRound n g) = Inr (eg_current_round_number ?g')"
    using advanceRound_performs [OF live cur active] cur by (simp add: Let_def)
  have adv: "already_advanced n ?g'"
  proof (cases "n = eg_total_rounds g")
    case True
    then show ?thesis
      using advanceRound_performs [OF live cur active] cur n1 nlen
      by (simp add: Let_def already_advanced_def round_phase_of_def)
  next
    case False
    then show ?thesis
      using advanceRound_performs [OF live cur active]
      by (simp add: Let_def already_advanced_def)
  qed
  have second: "advanceRound n ?g' = (Inr (eg_current_round_number ?g'), ?g')"
    using adv by (rule advanceRound_observes)
  have one: "completed_rounds ?g' = Suc (completed_rounds g)"
  proof -
    have idx: "n - 1 < length (eg_rounds g)" using n1 nlen by simp
    have notc: "eg_rounds g ! (n - 1) \<noteq> RoundCompleted" using act by simp
    have step1: "length (filter (\<lambda>p. p = RoundCompleted) ((eg_rounds g)[n - 1 := RoundCompleted])) =
        Suc (completed_rounds g)"
      unfolding completed_rounds_def using idx notc by (rule count_completed_update)
    have keep: "n < length ((eg_rounds g)[n - 1 := RoundCompleted]) \<Longrightarrow>
        (eg_rounds g)[n - 1 := RoundCompleted] ! n \<noteq> RoundCompleted"
      using nxt n1 by (simp add: round_phase_of_def nth_list_update)
    have step2: "length (filter (\<lambda>p. p = RoundCompleted)
          (((eg_rounds g)[n - 1 := RoundCompleted])[n := Active])) =
        length (filter (\<lambda>p. p = RoundCompleted) ((eg_rounds g)[n - 1 := RoundCompleted]))"
      using keep by (rule count_completed_activate)
    show ?thesis
    proof (cases "n = eg_total_rounds g")
      case True
      have "eg_rounds ?g' = (eg_rounds g)[n - 1 := RoundCompleted]"
        using advanceRound_performs [OF live cur active] True by (simp add: Let_def)
      with step1 show ?thesis by (simp add: completed_rounds_def)
    next
      case False
      have "eg_rounds ?g' = ((eg_rounds g)[n - 1 := RoundCompleted])[n := Active]"
        using advanceRound_performs [OF live cur active] False by (simp add: Let_def)
      with step1 step2 show ?thesis by (simp add: completed_rounds_def)
    qed
  qed
  from res second one show ?thesis by simp
qed

theorem advanceRound_idempotent_witness:
  "eg_status round2_of_5 = Live \<and> round_phase_of round2_of_5 2 = Some Active \<and>
   fst (advanceRound 2 round2_of_5) = Inr 3 \<and>
   fst (advanceRound 2 (snd (advanceRound 2 round2_of_5))) = Inr 3 \<and>
   snd (advanceRound 2 (snd (advanceRound 2 round2_of_5))) = snd (advanceRound 2 round2_of_5) \<and>
   eg_rounds (snd (advanceRound 2 round2_of_5)) = [RoundCompleted, RoundCompleted, Active, Pending, Pending] \<and>
   completed_rounds (snd (advanceRound 2 (snd (advanceRound 2 round2_of_5)))) = 2"
  using advanceRound_idempotent [of round2_of_5 2]
  by (simp add: round2_of_5_def round_phase_of_def advanceRound_def already_advanced_def
      completed_rounds_def Let_def)

end
